theory Spec2Isabelle
  imports Main "HOL-Library.Word"
begin

section \<open>kv-squirrel: export and import of a Redis cluster's keys\<close>

text \<open>
  A shallow embedding of \<^verbatim>\<open>cmd/kv-squirrel/main.go\<close>. The program talks to two
  collaborators it does not implement: the go-redis cluster client
  (\<^verbatim>\<open>redis.UniversalClient\<close>, a Go interface) and the operating system with
  \<^verbatim>\<open>encoding/json\<close>. Both are parameters of the model: a record of the methods the
  program calls, each taking the state of the outside world and returning its reply with
  the new state. Every function of the program is defined for an arbitrary such record,
  so every call, every early return and every discarded result of the source is visible.
  Logging is left out; the counters the log lines print are returned by the loops.
\<close>

subsection \<open>Data\<close>

text \<open>A Go \<^verbatim>\<open>error\<close>: a message, or \<^verbatim>\<open>fmt.Errorf("prefix %w", err)\<close> around another.\<close>

datatype error = Err string | Wrap string error

text \<open>
  \<^verbatim>\<open>time.Duration\<close> and \<^verbatim>\<open>int64\<close> are 64-bit signed integers; the program compares
  durations with zero (signed) and passes them on. A \<^verbatim>\<open>float64\<close> is carried as its
  64 bits: the program never calculates with one.
\<close>

type_synonym duration = "64 word"
type_synonym int64 = "64 word"
type_synonym float64 = "64 word"

text \<open>
  The dynamic values an \<^verbatim>\<open>interface{}\<close> holds in this program: what
  \<^verbatim>\<open>encoding/json\<close> decodes into (nil, bool, float64, string, \<^verbatim>\<open>[]interface{}\<close>,
  \<^verbatim>\<open>map[string]interface{}\<close>) and what the typed reads of the client return
  (\<^verbatim>\<open>[]string\<close>, \<^verbatim>\<open>[]redis.Z\<close>, \<^verbatim>\<open>map[string]string\<close>). A \<^verbatim>\<open>redis.Z\<close> is the
  pair of its \<^verbatim>\<open>Score\<close> and its \<^verbatim>\<open>Member\<close>. A Go map is an association list read
  with \<open>map_of\<close>.
\<close>

datatype iface =
    VNil
  | VBool bool
  | VFloat64 float64
  | VString string
  | VSlice "iface list"
  | VMap "(string \<times> iface) list"
  | VStrings "string list"
  | VZs "(float64 \<times> iface) list"
  | VStringMap "(string \<times> string) list"

type_synonym Z = "float64 \<times> iface"

text \<open>
  \<^verbatim>\<open>KeyData\<close>. \<^verbatim>\<open>Dump\<close> is a byte slice; the program only takes its length and
  converts it from and to a string, so the nil slice and the empty slice are both \<open>[]\<close>.
\<close>

record KeyData =
  Key :: string
  Type :: string
  TTL :: duration
  Value :: iface
  Dump :: string

record Config =
  SourceAddrs :: "string list"
  SourceUser :: string
  SourcePass :: string
  TargetAddrs :: "string list"
  TargetUser :: string
  TargetPass :: string
  Pattern :: string
  OutputFile :: string
  InputFile :: string
  BatchSize :: int64
  UseRDBDump :: bool

record ClusterOptions =
  Addrs :: "string list"
  Username :: string
  Password :: string
  ReadTimeout :: duration
  WriteTimeout :: duration

text \<open>A Go call either returns or panics.\<close>

datatype 'a result = Return 'a | Panic string

subsection \<open>The collaborators\<close>

text \<open>
  The methods of the cluster client the program calls, over a world \<open>'w\<close>.
  \<open>Masters\<close> and \<open>Scan\<close> stand for what \<^verbatim>\<open>ForEachMaster\<close> and a drained
  \<^verbatim>\<open>Scan(...).Iterator()\<close> deliver: the addresses of the master nodes, and for one node
  the keys the iterator yields before \<^verbatim>\<open>Next\<close> returns false together with
  \<^verbatim>\<open>iter.Err()\<close>. The fields \<open>TTLCmd\<close>, \<open>TypeCmd\<close>, \<open>DumpCmd\<close> and \<open>SetCmd\<close> are
  the methods \<^verbatim>\<open>TTL\<close>, \<^verbatim>\<open>Type\<close>, \<^verbatim>\<open>Dump\<close> and \<^verbatim>\<open>Set\<close>.
\<close>

record 'w client =
  Ping :: "'w \<Rightarrow> error option \<times> 'w"
  Masters :: "'w \<Rightarrow> (error + string list) \<times> 'w"
  Scan :: "string \<Rightarrow> string \<Rightarrow> int64 \<Rightarrow> 'w \<Rightarrow> (string list \<times> error option) \<times> 'w"
  TTLCmd :: "string \<Rightarrow> 'w \<Rightarrow> (error + duration) \<times> 'w"
  TypeCmd :: "string \<Rightarrow> 'w \<Rightarrow> (error + string) \<times> 'w"
  DumpCmd :: "string \<Rightarrow> 'w \<Rightarrow> (error + string) \<times> 'w"
  Get :: "string \<Rightarrow> 'w \<Rightarrow> (error + string) \<times> 'w"
  LRange :: "string \<Rightarrow> int64 \<Rightarrow> int64 \<Rightarrow> 'w \<Rightarrow> (error + string list) \<times> 'w"
  SMembers :: "string \<Rightarrow> 'w \<Rightarrow> (error + string list) \<times> 'w"
  ZRangeWithScores :: "string \<Rightarrow> int64 \<Rightarrow> int64 \<Rightarrow> 'w \<Rightarrow> (error + Z list) \<times> 'w"
  HGetAll :: "string \<Rightarrow> 'w \<Rightarrow> (error + (string \<times> string) list) \<times> 'w"
  RestoreReplace :: "string \<Rightarrow> duration \<Rightarrow> string \<Rightarrow> 'w \<Rightarrow> error option \<times> 'w"
  SetCmd :: "string \<Rightarrow> string \<Rightarrow> duration \<Rightarrow> 'w \<Rightarrow> error option \<times> 'w"
  RPush :: "string \<Rightarrow> iface \<Rightarrow> 'w \<Rightarrow> error option \<times> 'w"
  SAdd :: "string \<Rightarrow> iface \<Rightarrow> 'w \<Rightarrow> error option \<times> 'w"
  HSet :: "string \<Rightarrow> (string \<times> iface) list \<Rightarrow> 'w \<Rightarrow> error option \<times> 'w"
  ZAdd :: "string \<Rightarrow> Z list \<Rightarrow> 'w \<Rightarrow> error option \<times> 'w"
  Expire :: "string \<Rightarrow> duration \<Rightarrow> 'w \<Rightarrow> (error + bool) \<times> 'w"

text \<open>
  The library calls of \<^verbatim>\<open>exportKeys\<close> and \<^verbatim>\<open>importKeys\<close>:
  \<^verbatim>\<open>redis.NewClusterClient\<close>, \<^verbatim>\<open>os.Create\<close>, \<^verbatim>\<open>json.NewEncoder(file).Encode\<close>,
  \<^verbatim>\<open>os.Open\<close> and \<^verbatim>\<open>json.NewDecoder(file).Decode\<close>. An open file is named by its
  path. The deferred \<^verbatim>\<open>Close\<close> calls only release their handle and are left out.
\<close>

record 'w lib =
  NewClusterClient :: "ClusterOptions \<Rightarrow> 'w client"
  Create :: "string \<Rightarrow> 'w \<Rightarrow> (error + string) \<times> 'w"
  Encode :: "string \<Rightarrow> KeyData list \<Rightarrow> 'w \<Rightarrow> error option \<times> 'w"
  Open :: "string \<Rightarrow> 'w \<Rightarrow> (error + string) \<times> 'w"
  Decode :: "string \<Rightarrow> 'w \<Rightarrow> (error + KeyData list) \<times> 'w"

subsection \<open>Discovery: the scan of every master into a \<^verbatim>\<open>sync.Map\<close>\<close>

text \<open>
  \<^verbatim>\<open>allKeys\<close> is a \<^verbatim>\<open>sync.Map\<close> from key names to \<^verbatim>\<open>true\<close>. \<^verbatim>\<open>LoadOrStore\<close> returns
  the existing value and \<^verbatim>\<open>loaded = true\<close> when the key is present; otherwise it stores
  the given value and returns it with \<^verbatim>\<open>loaded = false\<close>. \<^verbatim>\<open>Range\<close> visits each
  entry once; Go leaves the order open, the model keeps the entries in the order they were
  stored and visits them in that order.
\<close>

type_synonym syncMap = "(string \<times> bool) list"

definition LoadOrStore :: "syncMap \<Rightarrow> string \<Rightarrow> bool \<Rightarrow> (bool \<times> bool) \<times> syncMap" where
  "LoadOrStore m key val =
     (case map_of m key of
        Some actual \<Rightarrow> ((actual, True), m)
      | None \<Rightarrow> ((val, False), m @ [(key, val)]))"

text \<open>The body of \<^verbatim>\<open>for iter.Next(ctx)\<close> (lines 142-149) over the keys the iterator yields.\<close>

fun scanLoop :: "string list \<Rightarrow> syncMap \<Rightarrow> nat \<Rightarrow> syncMap \<times> nat" where
  "scanLoop [] allKeys nodeKeyCount = (allKeys, nodeKeyCount)"
| "scanLoop (key # rest) allKeys nodeKeyCount =
     (case LoadOrStore allKeys key True of
        ((_, loaded), allKeys') \<Rightarrow>
          scanLoop rest allKeys' (if \<not> loaded then nodeKeyCount + 1 else nodeKeyCount))"

text \<open>The callback given to \<^verbatim>\<open>ForEachMaster\<close> (lines 136-157), for the master at \<open>addr\<close>.\<close>

definition scanMaster ::
  "'w client \<Rightarrow> Config \<Rightarrow> string \<Rightarrow> syncMap \<Rightarrow> 'w \<Rightarrow> (error option \<times> syncMap) \<times> 'w" where
  "scanMaster master config addr allKeys w =
     (case Scan master addr (Pattern config) (BatchSize config) w of
        ((yielded, iterErr), w1) \<Rightarrow>
          (case scanLoop yielded allKeys 0 of
             (allKeys', nodeKeyCount) \<Rightarrow>
               (case iterErr of
                  Some err \<Rightarrow> ((Some (Wrap (''scan error on '' @ addr @ '':  '') err), allKeys'), w1)
                | None \<Rightarrow> ((None, allKeys'), w1))))"

text \<open>
  \<^verbatim>\<open>ForEachMaster\<close> runs the callback once for every master, concurrently, waits for all
  of them and returns the first error sent, if any. The model runs the callbacks one after
  the other, which is one of the interleavings: the callbacks share only \<^verbatim>\<open>allKeys\<close>,
  through the atomic \<^verbatim>\<open>LoadOrStore\<close>.
\<close>

fun forEachMaster ::
  "'w client \<Rightarrow> Config \<Rightarrow> string list \<Rightarrow> error option \<Rightarrow> syncMap \<Rightarrow> 'w
     \<Rightarrow> (error option \<times> syncMap) \<times> 'w" where
  "forEachMaster c config [] first allKeys w = ((first, allKeys), w)"
| "forEachMaster c config (addr # addrs) first allKeys w =
     (case scanMaster c config addr allKeys w of
        ((err, allKeys'), w1) \<Rightarrow>
          forEachMaster c config addrs (if first = None then err else first) allKeys' w1)"

text \<open>\<^verbatim>\<open>allKeys.Range\<close> with the callback of lines 165-169: the keys, each appended once.\<close>

definition RangeKeys :: "syncMap \<Rightarrow> string list" where
  "RangeKeys m = map fst m"

text \<open>Lines 132-169 of \<^verbatim>\<open>exportKeys\<close>: the key slice, or the error of the scan.\<close>

definition discoverKeys :: "'w client \<Rightarrow> Config \<Rightarrow> 'w \<Rightarrow> (error + string list) \<times> 'w" where
  "discoverKeys sourceClient config w =
     (case Masters sourceClient w of
        (Inl err, w1) \<Rightarrow> (Inl (Wrap ''failed to scan cluster:  '' err), w1)
      | (Inr addrs, w1) \<Rightarrow>
          (case forEachMaster sourceClient config addrs None [] w1 of
             ((Some err, allKeys), w2) \<Rightarrow> (Inl (Wrap ''failed to scan cluster:  '' err), w2)
           | ((None, allKeys), w2) \<Rightarrow> (Inr (RangeKeys allKeys), w2)))"

subsection \<open>Capture\<close>

definition valueReply :: "('a \<Rightarrow> iface) \<Rightarrow> (error + 'a) \<times> 'w \<Rightarrow> (error + iface) \<times> 'w" where
  "valueReply tag r = (case r of (Inl err, w) \<Rightarrow> (Inl err, w) | (Inr v, w) \<Rightarrow> (Inr (tag v), w))"

definition exportValueByType ::
  "'w client \<Rightarrow> string \<Rightarrow> string \<Rightarrow> 'w \<Rightarrow> (error + iface) \<times> 'w" where
  "exportValueByType client key keyType w =
     (if keyType = ''string'' then valueReply VString (Get client key w)
      else if keyType = ''list'' then valueReply VStrings (LRange client key 0 (- 1) w)
      else if keyType = ''set'' then valueReply VStrings (SMembers client key w)
      else if keyType = ''zset'' then valueReply VZs (ZRangeWithScores client key 0 (- 1) w)
      else if keyType = ''hash'' then valueReply VStringMap (HGetAll client key w)
      else (Inl (Err (''unsupported type:   '' @ keyType)), w))"

definition exportKey :: "'w client \<Rightarrow> string \<Rightarrow> bool \<Rightarrow> 'w \<Rightarrow> (error + KeyData) \<times> 'w" where
  "exportKey client key useDump w =
     (let keyData = \<lparr>Key = key, Type = [], TTL = 0, Value = VNil, Dump = []\<rparr> in
      case TTLCmd client key w of
        (Inl err, w1) \<Rightarrow> (Inl (Wrap ''failed to get TTL:   '' err), w1)
      | (Inr ttl, w1) \<Rightarrow>
          (let keyData = keyData\<lparr>TTL := ttl\<rparr> in
           case TypeCmd client key w1 of
             (Inl err, w2) \<Rightarrow> (Inl (Wrap ''failed to get type:  '' err), w2)
           | (Inr keyType, w2) \<Rightarrow>
               (let keyData = keyData\<lparr>Type := keyType\<rparr> in
                if useDump then
                  (case DumpCmd client key w2 of
                     (Inl err, w3) \<Rightarrow> (Inl (Wrap ''failed to dump key: '' err), w3)
                   | (Inr dump, w3) \<Rightarrow> (Inr (keyData\<lparr>Dump := dump\<rparr>), w3))
                else
                  (case exportValueByType client key keyType w2 of
                     (Inl err, w3) \<Rightarrow> (Inl (Wrap ''failed to export value:   '' err), w3)
                   | (Inr val, w3) \<Rightarrow> (Inr (keyData\<lparr>Value := val\<rparr>), w3)))))"

text \<open>
  The loop of lines 185-199, with \<^verbatim>\<open>keyDataList\<close>, \<^verbatim>\<open>exported\<close> and \<^verbatim>\<open>failed\<close> as
  accumulators. The counters are bounded by the length of the key slice.
\<close>

fun exportLoop ::
  "'w client \<Rightarrow> bool \<Rightarrow> string list \<Rightarrow> KeyData list \<Rightarrow> nat \<Rightarrow> nat \<Rightarrow> 'w
     \<Rightarrow> (KeyData list \<times> nat \<times> nat) \<times> 'w" where
  "exportLoop client useDump [] keyDataList exported failed w =
     ((keyDataList, exported, failed), w)"
| "exportLoop client useDump (key # keys) keyDataList exported failed w =
     (case exportKey client key useDump w of
        (Inl err, w1) \<Rightarrow> exportLoop client useDump keys keyDataList exported (failed + 1) w1
      | (Inr keyData, w1) \<Rightarrow>
          exportLoop client useDump keys (keyDataList @ [keyData]) (exported + 1) failed w1)"

definition sourceOptions :: "Config \<Rightarrow> ClusterOptions" where
  "sourceOptions config =
     \<lparr>Addrs = SourceAddrs config, Username = SourceUser config, Password = SourcePass config,
      ReadTimeout = 30 * 1000000000, WriteTimeout = 30 * 1000000000\<rparr>"

text \<open>Lines 206-220 of \<^verbatim>\<open>exportKeys\<close>: create the output file and encode the list into it.\<close>

definition writeExport :: "'w lib \<Rightarrow> Config \<Rightarrow> KeyData list \<Rightarrow> 'w \<Rightarrow> error option \<times> 'w" where
  "writeExport l config keyDataList w =
     (case Create l (OutputFile config) w of
        (Inl err, w1) \<Rightarrow> (Some (Wrap ''failed to create output file: '' err), w1)
      | (Inr file, w1) \<Rightarrow>
          (case Encode l file keyDataList w1 of
             (Some err, w2) \<Rightarrow> (Some (Wrap ''failed to write JSON:   '' err), w2)
           | (None, w2) \<Rightarrow> (None, w2)))"

definition exportKeys :: "'w lib \<Rightarrow> Config \<Rightarrow> 'w \<Rightarrow> error option \<times> 'w" where
  "exportKeys l config w =
     (let sourceClient = NewClusterClient l (sourceOptions config) in
      case Ping sourceClient w of
        (Some err, w1) \<Rightarrow> (Some (Wrap ''failed to connect to source cluster:  '' err), w1)
      | (None, w1) \<Rightarrow>
          (case discoverKeys sourceClient config w1 of
             (Inl err, w2) \<Rightarrow> (Some err, w2)
           | (Inr keys, w2) \<Rightarrow>
               if length keys = 0 then (None, w2)
               else
                 (case exportLoop sourceClient (UseRDBDump config) keys [] 0 0 w2 of
                    ((keyDataList, exported, failed), w3) \<Rightarrow>
                      writeExport l config keyDataList w3)))"

text \<open>
  What the loop does, call by call: the outcome of \<^verbatim>\<open>exportKey\<close> for each key of the
  slice in order, and the world after the last call. \<open>captured\<close> are the snapshots of
  the calls that returned one, \<open>failures\<close> the errors of the others.
\<close>

fun captures ::
  "'w client \<Rightarrow> bool \<Rightarrow> string list \<Rightarrow> 'w \<Rightarrow> (string \<times> (error + KeyData)) list \<times> 'w" where
  "captures client useDump [] w = ([], w)"
| "captures client useDump (key # keys) w =
     (case exportKey client key useDump w of
        (r, w1) \<Rightarrow>
          (case captures client useDump keys w1 of (outs, w2) \<Rightarrow> ((key, r) # outs, w2)))"

fun captured :: "(string \<times> (error + KeyData)) list \<Rightarrow> KeyData list" where
  "captured [] = []"
| "captured ((key, Inr keyData) # outs) = keyData # captured outs"
| "captured ((key, Inl err) # outs) = captured outs"

fun failures :: "(string \<times> (error + KeyData)) list \<Rightarrow> (string \<times> error) list" where
  "failures [] = []"
| "failures ((key, Inr keyData) # outs) = failures outs"
| "failures ((key, Inl err) # outs) = (key, err) # failures outs"

subsection \<open>Restoration\<close>

text \<open>
  The loop of lines 432-438. The two type assertions have the one-result form, which
  panics when the dynamic type differs; a missing map key reads as nil. The
  \<^verbatim>\<open>Score\<close> field is evaluated first.
\<close>

fun zsetMembers :: "iface list \<Rightarrow> Z list \<Rightarrow> (Z list) result" where
  "zsetMembers [] members = Return members"
| "zsetMembers (v # vals) members =
     (case v of
        VMap zval \<Rightarrow>
          (case map_of zval ''Score'' of
             Some (VFloat64 score) \<Rightarrow>
               zsetMembers vals
                 (members @ [(score, case map_of zval ''Member'' of Some m \<Rightarrow> m | None \<Rightarrow> VNil)])
           | _ \<Rightarrow> Panic ''interface conversion: interface {} is not float64'')
      | _ \<Rightarrow> Panic ''interface conversion: interface {} is not map[string]interface {}'')"

fun rpushLoop :: "'w client \<Rightarrow> string \<Rightarrow> iface list \<Rightarrow> 'w \<Rightarrow> error option \<times> 'w" where
  "rpushLoop client key [] w = (None, w)"
| "rpushLoop client key (v # vals) w =
     (case RPush client key v w of
        (Some err, w1) \<Rightarrow> (Some err, w1)
      | (None, w1) \<Rightarrow> rpushLoop client key vals w1)"

fun saddLoop :: "'w client \<Rightarrow> string \<Rightarrow> iface list \<Rightarrow> 'w \<Rightarrow> error option \<times> 'w" where
  "saddLoop client key [] w = (None, w)"
| "saddLoop client key (v # vals) w =
     (case SAdd client key v w of
        (Some err, w1) \<Rightarrow> (Some err, w1)
      | (None, w1) \<Rightarrow> saddLoop client key vals w1)"

text \<open>
  \<^verbatim>\<open>if keyData.TTL > 0 { client.Expire(ctx, key, keyData.TTL) }\<close>: the command value
  that \<^verbatim>\<open>Expire\<close> returns is dropped, only its effect on the world stays.
\<close>

definition expireIfTTL :: "'w client \<Rightarrow> string \<Rightarrow> duration \<Rightarrow> 'w \<Rightarrow> 'w" where
  "expireIfTTL client key ttl w = (if 0 <s ttl then snd (Expire client key ttl w) else w)"

definition importValueByType :: "'w client \<Rightarrow> KeyData \<Rightarrow> 'w \<Rightarrow> error option result \<times> 'w" where
  "importValueByType client keyData w =
     (let key = Key keyData in
      if Type keyData = ''string'' then
        (case Value keyData of
           VString val \<Rightarrow>
             (case SetCmd client key val (TTL keyData) w of
                (Some err, w1) \<Rightarrow> (Return (Some err), w1)
              | (None, w1) \<Rightarrow> (Return None, w1))
         | _ \<Rightarrow> (Return (Some (Err ''invalid string value'')), w))
      else if Type keyData = ''list'' then
        (case Value keyData of
           VSlice vals \<Rightarrow>
             (case rpushLoop client key vals w of
                (Some err, w1) \<Rightarrow> (Return (Some err), w1)
              | (None, w1) \<Rightarrow> (Return None, expireIfTTL client key (TTL keyData) w1))
         | _ \<Rightarrow> (Return (Some (Err ''invalid list value'')), w))
      else if Type keyData = ''set'' then
        (case Value keyData of
           VSlice vals \<Rightarrow>
             (case saddLoop client key vals w of
                (Some err, w1) \<Rightarrow> (Return (Some err), w1)
              | (None, w1) \<Rightarrow> (Return None, expireIfTTL client key (TTL keyData) w1))
         | _ \<Rightarrow> (Return (Some (Err ''invalid set value'')), w))
      else if Type keyData = ''hash'' then
        (case Value keyData of
           VMap vals \<Rightarrow>
             (case HSet client key vals w of
                (Some err, w1) \<Rightarrow> (Return (Some err), w1)
              | (None, w1) \<Rightarrow> (Return None, expireIfTTL client key (TTL keyData) w1))
         | _ \<Rightarrow> (Return (Some (Err ''invalid hash value'')), w))
      else if Type keyData = ''zset'' then
        (case Value keyData of
           VSlice vals \<Rightarrow>
             (case zsetMembers vals [] of
                Panic p \<Rightarrow> (Panic p, w)
              | Return members \<Rightarrow>
                  (case ZAdd client key members w of
                     (Some err, w1) \<Rightarrow> (Return (Some err), w1)
                   | (None, w1) \<Rightarrow> (Return None, expireIfTTL client key (TTL keyData) w1)))
         | _ \<Rightarrow> (Return (Some (Err ''invalid zset value'')), w))
      else (Return (Some (Err (''unsupported type:  '' @ Type keyData))), w))"

definition importKey :: "'w client \<Rightarrow> KeyData \<Rightarrow> bool \<Rightarrow> 'w \<Rightarrow> error option result \<times> 'w" where
  "importKey client keyData useDump w =
     (if useDump \<and> length (Dump keyData) > 0 then
        (let ttl = TTL keyData;
             ttl = (if ttl <s 0 then 0 else ttl)
         in case RestoreReplace client (Key keyData) ttl (Dump keyData) w of
              (err, w1) \<Rightarrow> (Return err, w1))
      else importValueByType client keyData w)"

text \<open>The loop of lines 334-346; a panic of \<^verbatim>\<open>importKey\<close> ends the process.\<close>

fun importLoop ::
  "'w client \<Rightarrow> bool \<Rightarrow> KeyData list \<Rightarrow> nat \<Rightarrow> nat \<Rightarrow> 'w \<Rightarrow> (nat \<times> nat) result \<times> 'w" where
  "importLoop client useDump [] imported failed w = (Return (imported, failed), w)"
| "importLoop client useDump (keyData # rest) imported failed w =
     (case importKey client keyData useDump w of
        (Panic p, w1) \<Rightarrow> (Panic p, w1)
      | (Return (Some err), w1) \<Rightarrow> importLoop client useDump rest imported (failed + 1) w1
      | (Return None, w1) \<Rightarrow> importLoop client useDump rest (imported + 1) failed w1)"

definition targetOptions :: "Config \<Rightarrow> ClusterOptions" where
  "targetOptions config =
     \<lparr>Addrs = TargetAddrs config, Username = TargetUser config, Password = TargetPass config,
      ReadTimeout = 30 * 1000000000, WriteTimeout = 30 * 1000000000\<rparr>"

definition importKeys :: "'w lib \<Rightarrow> Config \<Rightarrow> 'w \<Rightarrow> error option result \<times> 'w" where
  "importKeys l config w =
     (case Open l (InputFile config) w of
        (Inl err, w1) \<Rightarrow> (Return (Some (Wrap ''failed to open input file: '' err)), w1)
      | (Inr file, w1) \<Rightarrow>
          (case Decode l file w1 of
             (Inl err, w2) \<Rightarrow> (Return (Some (Wrap ''failed to parse JSON: '' err)), w2)
           | (Inr keyDataList, w2) \<Rightarrow>
               if length keyDataList = 0 then (Return None, w2)
               else
                 (let targetClient = NewClusterClient l (targetOptions config) in
                  case Ping targetClient w2 of
                    (Some err, w3) \<Rightarrow>
                      (Return (Some (Wrap ''failed to connect to target cluster:  '' err)), w3)
                  | (None, w3) \<Rightarrow>
                      (case importLoop targetClient (UseRDBDump config) keyDataList 0 0 w3 of
                         (Panic p, w4) \<Rightarrow> (Panic p, w4)
                       | (Return (imported, failed), w4) \<Rightarrow> (Return None, w4)))))"

subsection \<open>The Dedup Set of the specification, on the \<^verbatim>\<open>sync.Map\<close>\<close>

text \<open>
  The specification's \<open>add(key) -> bool\<close> is line 146 of the source:
  \<^verbatim>\<open>_, loaded := allKeys.LoadOrStore(key, true)\<close>, with "newly added" being
  \<^verbatim>\<open>!loaded\<close>. \<open>addAll\<close> performs a sequence of adds and collects what each reports.
\<close>

definition add :: "syncMap \<Rightarrow> string \<Rightarrow> bool \<times> syncMap" where
  "add m key = (case LoadOrStore m key True of ((_, loaded), m') \<Rightarrow> (\<not> loaded, m'))"

fun addAll :: "syncMap \<Rightarrow> string list \<Rightarrow> bool list \<times> syncMap" where
  "addAll m [] = ([], m)"
| "addAll m (key # rest) =
     (case add m key of
        (new, m') \<Rightarrow> (case addAll m' rest of (flags, m'') \<Rightarrow> (new # flags, m'')))"

subsection \<open>Collaborators for the concrete runs\<close>

text \<open>
  A client that answers as a cluster with one master and no key does (\<^verbatim>\<open>TTL\<close> of a
  missing key is -2, its \<^verbatim>\<open>TYPE\<close> is \<^verbatim>\<open>none\<close>, \<^verbatim>\<open>DUMP\<close> and \<^verbatim>\<open>GET\<close> reply nil, which
  go-redis returns as the error \<^verbatim>\<open>redis: nil\<close>) and that accepts every write without
  recording it. The concrete runs below override the replies they are about.
\<close>

definition stubClient :: "'w client" where
  "stubClient =
     \<lparr>Ping = (\<lambda>w. (None, w)),
      Masters = (\<lambda>w. (Inr [''node-1:6379''], w)),
      Scan = (\<lambda>addr pattern count w. (([], None), w)),
      TTLCmd = (\<lambda>key w. (Inr (- 2), w)),
      TypeCmd = (\<lambda>key w. (Inr ''none'', w)),
      DumpCmd = (\<lambda>key w. (Inl (Err ''redis: nil''), w)),
      Get = (\<lambda>key w. (Inl (Err ''redis: nil''), w)),
      LRange = (\<lambda>key start stop w. (Inr [], w)),
      SMembers = (\<lambda>key w. (Inr [], w)),
      ZRangeWithScores = (\<lambda>key start stop w. (Inr [], w)),
      HGetAll = (\<lambda>key w. (Inr [], w)),
      RestoreReplace = (\<lambda>key ttl payload w. (None, w)),
      SetCmd = (\<lambda>key val ttl w. (None, w)),
      RPush = (\<lambda>key v w. (None, w)),
      SAdd = (\<lambda>key v w. (None, w)),
      HSet = (\<lambda>key vals w. (None, w)),
      ZAdd = (\<lambda>key members w. (None, w)),
      Expire = (\<lambda>key ttl w. (Inr False, w))\<rparr>"

text \<open>
  A world with files and one keyspace. A file is empty after \<^verbatim>\<open>os.Create\<close>, or holds
  an encoded snapshot list, kept as \<^verbatim>\<open>encoding/json\<close> decodes it: a \<^verbatim>\<open>[]string\<close> comes
  back as a \<^verbatim>\<open>[]interface{}\<close> of strings, a \<^verbatim>\<open>[]redis.Z\<close> as a \<^verbatim>\<open>[]interface{}\<close> of
  maps with the keys \<^verbatim>\<open>Score\<close> and \<^verbatim>\<open>Member\<close>, a \<^verbatim>\<open>map[string]string\<close> as a
  \<^verbatim>\<open>map[string]interface{}\<close>. A key of the keyspace holds what was restored into it, or
  a list, with its time to live (0 for none).
\<close>

definition jsonValue :: "iface \<Rightarrow> iface" where
  "jsonValue v =
     (case v of
        VStrings xs \<Rightarrow> VSlice (map VString xs)
      | VZs zs \<Rightarrow>
          VSlice (map (\<lambda>(score, member). VMap [(''Score'', VFloat64 score), (''Member'', member)]) zs)
      | VStringMap m \<Rightarrow> VMap (map (\<lambda>(field, val). (field, VString val)) m)
      | _ \<Rightarrow> v)"

definition jsonKeyData :: "KeyData \<Rightarrow> KeyData" where
  "jsonKeyData keyData = keyData\<lparr>Value := jsonValue (Value keyData)\<rparr>"

datatype fileContent = Truncated | Encoded "KeyData list"

datatype stored = Restored string | ListOf "iface list"

record world =
  files :: "string \<rightharpoonup> fileContent"
  db :: "string \<rightharpoonup> stored \<times> duration"

text \<open>
  The target of the concrete imports: \<^verbatim>\<open>RESTORE key ttl payload REPLACE\<close> creates or
  overwrites the key, \<^verbatim>\<open>RPUSH\<close> appends to the list at the key (creating it, and
  refusing a key of another type), \<^verbatim>\<open>EXPIRE\<close> sets the time to live of an existing
  key. The other writes are those of \<open>stubClient\<close>.
\<close>

definition memRestoreReplace :: "string \<Rightarrow> duration \<Rightarrow> string \<Rightarrow> world \<Rightarrow> error option \<times> world" where
  "memRestoreReplace key ttl payload w = (None, w\<lparr>db := (db w)(key \<mapsto> (Restored payload, ttl))\<rparr>)"

definition memRPush :: "string \<Rightarrow> iface \<Rightarrow> world \<Rightarrow> error option \<times> world" where
  "memRPush key v w =
     (case db w key of
        None \<Rightarrow> (None, w\<lparr>db := (db w)(key \<mapsto> (ListOf [v], 0))\<rparr>)
      | Some (ListOf vs, ttl) \<Rightarrow> (None, w\<lparr>db := (db w)(key \<mapsto> (ListOf (vs @ [v]), ttl))\<rparr>)
      | Some (Restored payload, ttl) \<Rightarrow> (Some (Err ''WRONGTYPE''), w))"

definition memExpire :: "string \<Rightarrow> duration \<Rightarrow> world \<Rightarrow> (error + bool) \<times> world" where
  "memExpire key ttl w =
     (case db w key of
        None \<Rightarrow> (Inr False, w)
      | Some (v, old) \<Rightarrow> (Inr True, w\<lparr>db := (db w)(key \<mapsto> (v, ttl))\<rparr>))"

definition memClient :: "world client" where
  "memClient = stubClient\<lparr>RestoreReplace := memRestoreReplace, RPush := memRPush, Expire := memExpire\<rparr>"

text \<open>
  The library over that world: \<^verbatim>\<open>os.Create\<close> makes the file empty, \<^verbatim>\<open>Encode\<close> writes
  the list, \<^verbatim>\<open>os.Open\<close> fails on a missing file, \<^verbatim>\<open>Decode\<close> reads the list back and
  fails on an empty file; every client is \<open>c\<close>.
\<close>

definition memLib :: "world client \<Rightarrow> world lib" where
  "memLib c =
     \<lparr>NewClusterClient = (\<lambda>opts. c),
      Create = (\<lambda>path w. (Inr path, w\<lparr>files := (files w)(path \<mapsto> Truncated)\<rparr>)),
      Encode = (\<lambda>file keyDataList w.
                  (None, w\<lparr>files := (files w)(file \<mapsto> Encoded (map jsonKeyData keyDataList))\<rparr>)),
      Open = (\<lambda>path w. (case files w path of
                           None \<Rightarrow> (Inl (Err ''no such file or directory''), w)
                         | Some content \<Rightarrow> (Inr path, w))),
      Decode = (\<lambda>file w. (case files w file of
                           Some (Encoded keyDataList) \<Rightarrow> (Inr keyDataList, w)
                         | _ \<Rightarrow> (Inl (Err ''EOF''), w)))\<rparr>"

definition emptyWorld :: world where
  "emptyWorld = \<lparr>files = Map.empty, db = Map.empty\<rparr>"

definition defaultConfig :: Config where
  "defaultConfig =
     \<lparr>SourceAddrs = [''localhost:7000'', ''localhost:7001''], SourceUser = [], SourcePass = [],
      TargetAddrs = [''localhost:8000'', ''localhost:8001''], TargetUser = [], TargetPass = [],
      Pattern = ''*'', OutputFile = ''redis-dump.json'', InputFile = [], BatchSize = 1000,
      UseRDBDump = True\<rparr>"

text \<open>
  A source with two masters whose scans overlap in \<^verbatim>\<open>user:2\<close>. \<^verbatim>\<open>user:1\<close> has no
  expiration (\<^verbatim>\<open>TTL\<close> replies -1), the others expire in 60 s; \<^verbatim>\<open>user:2\<close> is a stream,
  the others are strings; \<^verbatim>\<open>DUMP\<close> and \<^verbatim>\<open>GET\<close> succeed.
\<close>

definition sampleSource :: "'w client" where
  "sampleSource = stubClient
     \<lparr>Masters := (\<lambda>w. (Inr [''node-1:6379'', ''node-2:6379''], w)),
      Scan := (\<lambda>addr pattern count w.
                 ((if addr = ''node-1:6379'' then [''user:1'', ''user:2'']
                   else [''user:2'', ''user:3''], None), w)),
      TTLCmd := (\<lambda>key w. (Inr (if key = ''user:1'' then - 1 else 60000000000), w)),
      TypeCmd := (\<lambda>key w. (Inr (if key = ''user:2'' then ''stream'' else ''string''), w)),
      DumpCmd := (\<lambda>key w. (Inr (''payload of '' @ key), w)),
      Get := (\<lambda>key w. (Inr (''value of '' @ key), w))\<rparr>"

text \<open>A target whose \<^verbatim>\<open>EXPIRE\<close> fails; its other writes are accepted.\<close>

definition expireFails :: "'w client" where
  "expireFails = stubClient\<lparr>Expire := (\<lambda>key ttl w. (Inl (Err ''i/o timeout''), w))\<rparr>"

text \<open>An import file with one list snapshot, read under the decomposed strategy.\<close>

definition listSnapshot :: KeyData where
  "listSnapshot = \<lparr>Key = ''queue'', Type = ''list'', TTL = 0, Value = VSlice [VString ''job''], Dump = []\<rparr>"

definition listImportConfig :: Config where
  "listImportConfig = defaultConfig\<lparr>InputFile := ''redis-dump.json'', UseRDBDump := False\<rparr>"

definition listImportWorld :: world where
  "listImportWorld = emptyWorld\<lparr>files := [''redis-dump.json'' \<mapsto> Encoded [listSnapshot]]\<rparr>"

text \<open>The keyspace after a list of opaque snapshots is restored into it, one after the other.\<close>

definition restoredTTL :: "duration \<Rightarrow> duration" where
  "restoredTTL ttl = (if ttl <s 0 then 0 else ttl)"

fun restoreAll ::
  "KeyData list \<Rightarrow> (string \<rightharpoonup> stored \<times> duration) \<Rightarrow> (string \<rightharpoonup> stored \<times> duration)" where
  "restoreAll [] m = m"
| "restoreAll (keyData # rest) m =
     restoreAll rest (m(Key keyData \<mapsto> (Restored (Dump keyData), restoredTTL (TTL keyData))))"

text \<open>The type tags with a case in the switch of \<^verbatim>\<open>exportValueByType\<close>.\<close>

definition supportedTypes :: "string set" where
  "supportedTypes = {''string'', ''list'', ''set'', ''zset'', ''hash''}"

text \<open>A decomposed snapshot of type \<open>t\<close> that expires in 60 s.\<close>

definition expiring :: "string \<Rightarrow> iface \<Rightarrow> KeyData" where
  "expiring t v = \<lparr>Key = ''session'', Type = t, TTL = 60000000000, Value = v, Dump = []\<rparr>"

text \<open>The snapshots the sample source yields under the decomposed and the opaque strategy.\<close>

definition sampleString :: "string \<Rightarrow> duration \<Rightarrow> KeyData" where
  "sampleString key ttl =
     \<lparr>Key = key, Type = ''string'', TTL = ttl, Value = VString (''value of '' @ key), Dump = []\<rparr>"

definition sampleDump :: "string \<Rightarrow> duration \<Rightarrow> KeyData" where
  "sampleDump key ttl =
     \<lparr>Key = key, Type = ''string'', TTL = ttl, Value = VNil, Dump = ''payload of '' @ key\<rparr>"

text \<open>The default configuration with the decomposed strategy.\<close>

definition decomposedConfig :: Config where
  "decomposedConfig = defaultConfig\<lparr>UseRDBDump := False\<rparr>"

text \<open>
  An opaque import: the file holds two snapshots with a payload, and the target already
  holds a list at the key of the first.
\<close>

definition opaqueImportConfig :: Config where
  "opaqueImportConfig = defaultConfig\<lparr>InputFile := ''redis-dump.json''\<rparr>"

definition opaqueImportWorld :: world where
  "opaqueImportWorld =
     \<lparr>files = [''redis-dump.json'' \<mapsto>
                Encoded [sampleDump ''user:1'' (- 1), sampleDump ''user:3'' 60000000000]],
      db = [''user:1'' \<mapsto> (ListOf [VString ''old''], 0)]\<rparr>"




text \<open>
  A target that records, in order, the key and the time to live of every request that
  carries one (\<^verbatim>\<open>RestoreReplace\<close>, \<^verbatim>\<open>Set\<close>, \<^verbatim>\<open>Expire\<close>) and accepts the others.
\<close>

definition ttlLog :: "(string \<times> duration) list client" where
  "ttlLog = stubClient
     \<lparr>RestoreReplace := (\<lambda>key ttl payload w. (None, w @ [(key, ttl)])),
      SetCmd := (\<lambda>key val ttl w. (None, w @ [(key, ttl)])),
      Expire := (\<lambda>key ttl w. (Inr True, w @ [(key, ttl)]))\<rparr>"

text \<open>The library over the in-memory world on a full disk: the file is created, encoding fails.\<close>

definition diskFullLib :: "world client \<Rightarrow> world lib" where
  "diskFullLib c = (memLib c)
     \<lparr>Encode := (\<lambda>file keyDataList w. (Some (Err ''no space left on device''), w))\<rparr>"



section \<open>Discovery and the Dedup Set\<close>

lemma add_eq: "add m k = (k \<notin> set (RangeKeys m), if k \<in> set (RangeKeys m) then m else m @ [(k, True)])"
proof (cases "map_of m k")
  case None
  then have "k \<notin> fst ` set m" by (simp add: map_of_eq_None_iff)
  with None show ?thesis by (simp add: add_def LoadOrStore_def RangeKeys_def)
next
  case (Some v)
  then have "k \<in> fst ` set m" by (metis map_of_eq_None_iff option.distinct(1))
  with Some show ?thesis by (simp add: add_def LoadOrStore_def RangeKeys_def)
qed

lemma RangeKeys_add: "RangeKeys (snd (add m k)) = (if k \<in> set (RangeKeys m) then RangeKeys m else RangeKeys m @ [k])"
  by (simp add: add_eq RangeKeys_def)

lemma addAll_Cons:
  "addAll m (k # ks) =
     (fst (add m k) # fst (addAll (snd (add m k)) ks), snd (addAll (snd (add m k)) ks))"
  by (simp split: prod.splits)

lemma addAll_length: "length (fst (addAll m ks)) = length ks"
  by (induction ks arbitrary: m) (simp_all add: addAll_Cons del: addAll.simps(2))

lemma addAll_keys:
  "distinct (RangeKeys m) \<Longrightarrow>
     distinct (RangeKeys (snd (addAll m ks))) \<and>
     set (RangeKeys (snd (addAll m ks))) = set (RangeKeys m) \<union> set ks"
proof (induction ks arbitrary: m)
  case Nil
  then show ?case by simp
next
  case (Cons k ks)
  let ?m' = "snd (add m k)"
  have d: "distinct (RangeKeys ?m')"
    using Cons.prems by (simp add: RangeKeys_add)
  have s: "set (RangeKeys ?m') = insert k (set (RangeKeys m))"
    by (auto simp: RangeKeys_add)
  have e: "snd (addAll m (k # ks)) = snd (addAll ?m' ks)"
    by (simp split: prod.splits)
  from Cons.IH [OF d] s show ?case
    unfolding e by auto
qed

lemma addAll_flags:
  "i < length ks \<Longrightarrow>
     fst (addAll m ks) ! i = (ks ! i \<notin> set (RangeKeys m) \<union> set (take i ks))"
proof (induction ks arbitrary: m i)
  case Nil
  then show ?case by simp
next
  case (Cons k ks)
  have e: "fst (addAll m (k # ks)) = fst (add m k) # fst (addAll (snd (add m k)) ks)"
    by (simp split: prod.splits)
  show ?case
  proof (cases i)
    case 0
    then show ?thesis unfolding e by (simp add: add_eq)
  next
    case (Suc j)
    with Cons.prems have j: "j < length ks" by simp
    have s: "set (RangeKeys (snd (add m k))) = insert k (set (RangeKeys m))"
      by (auto simp: RangeKeys_add)
    from Cons.IH [OF j, of "snd (add m k)"] s Suc show ?thesis
      unfolding e by simp
  qed
qed

lemma scanLoop_addAll:
  "scanLoop ks m n = (snd (addAll m ks), n + length (filter id (fst (addAll m ks))))"
proof (induction ks arbitrary: m n)
  case Nil
  then show ?case by simp
next
  case (Cons k ks)
  obtain v loaded m' where l: "LoadOrStore m k True = ((v, loaded), m')"
    by (metis prod.exhaust)
  then have a: "add m k = (\<not> loaded, m')" by (simp add: add_def)
  obtain flags m'' where r: "addAll m' ks = (flags, m'')" by (metis prod.exhaust)
  show ?case using Cons.IH [of m'] l a r by simp
qed


lemma scanLoop_distinct:
  "distinct (RangeKeys m) \<Longrightarrow> scanLoop ks m n = (m', n') \<Longrightarrow> distinct (RangeKeys m')"
  using addAll_keys [of m ks] by (simp add: scanLoop_addAll)

lemma scanMaster_distinct:
  "distinct (RangeKeys m) \<Longrightarrow> scanMaster c cfg addr m w = ((e, m'), w') \<Longrightarrow> distinct (RangeKeys m')"
  by (auto simp: scanMaster_def split: prod.splits option.splits dest: scanLoop_distinct)

lemma forEachMaster_distinct:
  "distinct (RangeKeys m) \<Longrightarrow> forEachMaster c cfg addrs first m w = ((e, m'), w')
     \<Longrightarrow> distinct (RangeKeys m')"
proof (induction addrs arbitrary: first m w)
  case Nil
  then show ?case by simp
next
  case (Cons addr addrs)
  obtain e1 m1 w1 where s: "scanMaster c cfg addr m w = ((e1, m1), w1)"
    by (metis prod.exhaust)
  have d: "distinct (RangeKeys m1)"
    using Cons.prems(1) s by (rule scanMaster_distinct)
  from Cons.prems(2) s
  have "forEachMaster c cfg addrs (if first = None then e1 else first) m1 w1 = ((e', m'), w')" if "e' = e" for e'
    using that by simp
  then show ?case using Cons.IH [OF d] by blast
qed

lemma discoverKeys_distinct:
  "discoverKeys c cfg w = (Inr keys, w') \<Longrightarrow> distinct keys"
proof -
  assume a: "discoverKeys c cfg w = (Inr keys, w')"
  have d0: "distinct (RangeKeys [])" by (simp add: RangeKeys_def)
  from a obtain addrs w1 m where
    f: "forEachMaster c cfg addrs None [] w1 = ((None, m), w')" and k: "keys = RangeKeys m"
    by (auto simp: discoverKeys_def split: prod.splits sum.splits option.splits)
  from forEachMaster_distinct [OF d0 f] k show ?thesis by simp
qed

lemma captures_Cons:
  "captures c u (k # ks) w =
     ((k, fst (exportKey c k u w)) # fst (captures c u ks (snd (exportKey c k u w))),
      snd (captures c u ks (snd (exportKey c k u w))))"
  by (simp split: prod.splits)

lemma captures_keys: "map fst (fst (captures c u keys w)) = keys"
  by (induction keys arbitrary: w) (simp_all add: captures_Cons del: captures.simps(2))

text \<open>
  C4. In a sequence of adds into the Dedup Set, starting from the empty set, the add at
  position \<open>i\<close> reports "newly added" exactly when its key did not occur at an earlier
  position. An add of a key already in the set reports false and leaves the set as it
  was; an add of a key not yet in it reports true and stores it. The scan loop of a node
  is such a sequence of adds, counting the new keys. The key slice that discovery hands
  to the capture loop holds every key once, and the capture loop calls \<^verbatim>\<open>exportKey\<close>
  once for each element of that slice: a key seen by several node scans is captured at
  most once.
\<close>

theorem dedup_set_reports_first_add_only:
  "(\<forall>i<length ks. fst (addAll [] ks) ! i = (ks ! i \<notin> set (take i ks))) \<and>
   (\<forall>m k. k \<in> set (RangeKeys m) \<longrightarrow> add m k = (False, m)) \<and>
   (\<forall>m k. k \<notin> set (RangeKeys m) \<longrightarrow> add m k = (True, m @ [(k, True)])) \<and>
   (\<forall>m n. scanLoop ks m n = (snd (addAll m ks), n + length (filter id (fst (addAll m ks))))) \<and>
   (\<forall>c cfg (w :: 'w) keys w' u.
      discoverKeys c cfg w = (Inr keys, w') \<longrightarrow>
        distinct keys \<and> map fst (fst (captures c u keys w')) = keys)"
proof -
  have "\<forall>i<length ks. fst (addAll [] ks) ! i = (ks ! i \<notin> set (take i ks))"
    using addAll_flags [of _ ks "[]"] by (simp add: RangeKeys_def)
  moreover have "\<forall>m k. k \<in> set (RangeKeys m) \<longrightarrow> add m k = (False, m)"
    by (simp add: add_eq)
  moreover have "\<forall>m k. k \<notin> set (RangeKeys m) \<longrightarrow> add m k = (True, m @ [(k, True)])"
    by (simp add: add_eq)
  moreover have "\<forall>m n. scanLoop ks m n = (snd (addAll m ks), n + length (filter id (fst (addAll m ks))))"
    by (simp add: scanLoop_addAll)
  moreover have "\<forall>c cfg (w :: 'w) keys w' u.
      discoverKeys c cfg w = (Inr keys, w') \<longrightarrow>
        distinct keys \<and> map fst (fst (captures c u keys w')) = keys"
    by (simp add: discoverKeys_distinct captures_keys)
  ultimately show ?thesis by blast
qed

lemma discover_sample:
  "discoverKeys sampleSource defaultConfig w = (Inr [''user:1'', ''user:2'', ''user:3''], w)"
  by (simp add: discoverKeys_def sampleSource_def stubClient_def scanMaster_def LoadOrStore_def
      RangeKeys_def defaultConfig_def)

theorem dedup_set_reports_first_add_only_witness:
  "fst (addAll [] [''user:1'', ''user:2'', ''user:2'', ''user:3'']) = [True, True, False, True] \<and>
   add [(''user:2'', True)] ''user:2'' = (False, [(''user:2'', True)]) \<and>
   add [(''user:2'', True)] ''user:3'' = (True, [(''user:2'', True), (''user:3'', True)]) \<and>
   discoverKeys sampleSource defaultConfig () = (Inr [''user:1'', ''user:2'', ''user:3''], ()) \<and>
   distinct [''user:1'', ''user:2'', ''user:3''] \<and>
   map fst (fst (captures sampleSource True [''user:1'', ''user:2'', ''user:3''] ())) =
     [''user:1'', ''user:2'', ''user:3'']"
proof -
  have d: "discoverKeys sampleSource defaultConfig () = (Inr [''user:1'', ''user:2'', ''user:3''], ())"
    by (rule discover_sample)
  have f: "fst (addAll [] [''user:1'', ''user:2'', ''user:2'', ''user:3'']) = [True, True, False, True]"
    by (simp add: add_def LoadOrStore_def)
  have m: "''user:2'' \<in> set (RangeKeys [(''user:2'', True)])"
      "''user:3'' \<notin> set (RangeKeys [(''user:2'', True)])"
    by (simp_all add: RangeKeys_def)
  note t = dedup_set_reports_first_add_only
    [where ks = "[''user:1'', ''user:2'', ''user:2'', ''user:3'']" and 'w = unit]
  from t m have "add [(''user:2'', True)] ''user:2'' = (False, [(''user:2'', True)])"
      "add [(''user:2'', True)] ''user:3'' = (True, [(''user:2'', True) ] @ [(''user:3'', True)])"
    by blast+
  moreover from t d have "distinct [''user:1'', ''user:2'', ''user:3''] \<and>
      map fst (fst (captures sampleSource True [''user:1'', ''user:2'', ''user:3''] ())) =
        [''user:1'', ''user:2'', ''user:3'']"
    by blast
  ultimately show ?thesis using d f by simp
qed

section \<open>Capture and restoration of one snapshot\<close>

text \<open>
  C3. The claim asks for a restore error when an element of a decomposed sorted-set value
  is not a map, or its score is not a float64. The code panics instead: at a value whose
  element is a string, and at one whose score is a string, \<^verbatim>\<open>importKey\<close> does not
  return, for every client and under either flag, and the import loop ends there. Only the
  outer assertion of the branch is checked (a value that is not a slice gives the error
  \<^verbatim>\<open>invalid zset value\<close>), as the assertions of the string, list, set and hash branches are.
\<close>

theorem importKey_zset_unchecked_assertion_panics:
  "importKey c \<lparr>Key = ''board'', Type = ''zset'', TTL = 0,
                 Value = VSlice [VString ''alice''], Dump = []\<rparr> useDump w =
     (Panic ''interface conversion: interface {} is not map[string]interface {}'', w) \<and>
   importKey c \<lparr>Key = ''board'', Type = ''zset'', TTL = 0,
                 Value = VSlice [VMap [(''Score'', VString ''1''), (''Member'', VString ''alice'')]],
                 Dump = []\<rparr> useDump w =
     (Panic ''interface conversion: interface {} is not float64'', w) \<and>
   importKey c \<lparr>Key = ''board'', Type = ''zset'', TTL = 0,
                 Value = VString ''alice'', Dump = []\<rparr> useDump w =
     (Return (Some (Err ''invalid zset value'')), w) \<and>
   importLoop c useDump
       (\<lparr>Key = ''board'', Type = ''zset'', TTL = 0,
         Value = VSlice [VString ''alice''], Dump = []\<rparr> # rest) imported failed w =
     (Panic ''interface conversion: interface {} is not map[string]interface {}'', w)"
  by (simp add: importKey_def importValueByType_def)

text \<open>
  C6. For a snapshot with a non-empty payload whose time to live is zero or negative,
  restoration under the opaque strategy is exactly one \<^verbatim>\<open>RestoreReplace\<close> request with
  the time-to-live argument zero, for every client: no other request is made, in
  particular none that expires the key.
\<close>

theorem opaque_restore_without_expiration:
  assumes "Dump kd \<noteq> []" and "TTL kd \<le>s 0"
  shows "importKey c kd True w =
           (case RestoreReplace c (Key kd) 0 (Dump kd) w of (err, w1) \<Rightarrow> (Return err, w1))"
proof -
  have "(if TTL kd <s 0 then 0 else TTL kd) = 0"
    using assms(2) by (auto simp: signed.le_less)
  with assms(1) show ?thesis by (simp add: importKey_def)
qed

text \<open>A snapshot without expiration (-1) restored into the empty keyspace.\<close>

theorem opaque_restore_without_expiration_witness:
  "Dump \<lparr>Key = ''user:1'', Type = ''string'', TTL = - 1, Value = VNil, Dump = ''payload''\<rparr> \<noteq> [] \<and>
   TTL \<lparr>Key = ''user:1'', Type = ''string'', TTL = - 1, Value = VNil, Dump = ''payload''\<rparr> \<le>s 0 \<and>
   importKey memClient \<lparr>Key = ''user:1'', Type = ''string'', TTL = - 1, Value = VNil, Dump = ''payload''\<rparr>
       True emptyWorld =
     (Return None, emptyWorld\<lparr>db := [''user:1'' \<mapsto> (Restored ''payload'', 0)]\<rparr>)"
proof -
  let ?kd = "\<lparr>Key = ''user:1'', Type = ''string'', TTL = - 1, Value = VNil, Dump = ''payload''\<rparr>"
  have d: "Dump ?kd \<noteq> []" by simp
  have t: "TTL ?kd \<le>s 0" by (simp add: word_sle_eq)
  from opaque_restore_without_expiration [OF d t, of memClient emptyWorld] d t
  show ?thesis
    by (simp add: memClient_def stubClient_def memRestoreReplace_def emptyWorld_def)
qed



lemma exportValueByType_unsupported:
  "t \<notin> supportedTypes \<Longrightarrow>
     exportValueByType c key t w = (Inl (Err (''unsupported type:   '' @ t)), w)"
  by (simp add: exportValueByType_def supportedTypes_def)

lemma exportKey_sample_dump:
  "exportKey sampleSource key True w =
     (Inr \<lparr>Key = key, Type = (if key = ''user:2'' then ''stream'' else ''string''),
           TTL = (if key = ''user:1'' then - 1 else 60000000000), Value = VNil,
           Dump = ''payload of '' @ key\<rparr>, w)"
  by (simp add: exportKey_def sampleSource_def stubClient_def)

text \<open>
  C2, as stated, fails: the export of the sample source writes the snapshot of
  \<^verbatim>\<open>user:1\<close> with the time to live -1 that the source replied.
\<close>

theorem negative_ttl_persisted_counterexample:
  "exportKeys (memLib sampleSource) defaultConfig emptyWorld =
     (None, emptyWorld\<lparr>files := [''redis-dump.json'' \<mapsto> Encoded
        [\<lparr>Key = ''user:1'', Type = ''string'', TTL = - 1, Value = VNil, Dump = ''payload of user:1''\<rparr>,
         \<lparr>Key = ''user:2'', Type = ''stream'', TTL = 60000000000, Value = VNil, Dump = ''payload of user:2''\<rparr>,
         \<lparr>Key = ''user:3'', Type = ''string'', TTL = 60000000000, Value = VNil, Dump = ''payload of user:3''\<rparr>]]\<rparr>) \<and>
   (- 1 :: duration) <s 0"
proof -
  have p: "Ping (sampleSource :: world client) = (\<lambda>w. (None, w))"
    by (simp add: sampleSource_def stubClient_def)
  have u: "UseRDBDump defaultConfig" "OutputFile defaultConfig = ''redis-dump.json''"
    by (simp_all add: defaultConfig_def)
  show ?thesis
    by (simp add: exportKeys_def memLib_def p discover_sample u exportKey_sample_dump
        writeExport_def emptyWorld_def word_sless_alt jsonKeyData_def jsonValue_def)
qed

text \<open>
  C7, as amended. When the reads of the time to live and of the type succeed and the type
  is none of string, list, set, zset, hash, capture under the decomposed strategy fails
  with the error \<^verbatim>\<open>unsupported type\<close> (wrapped in \<^verbatim>\<open>failed to export value\<close>) without
  reading a value, and the capture loop counts one failure and goes on with the next key.
  Under the opaque strategy the type is not looked at: the capture is whatever the
  \<^verbatim>\<open>DUMP\<close> read gives, a snapshot when it succeeds.
\<close>

theorem unsupported_type_fails_decomposed_capture:
  assumes "TTLCmd c key w = (Inr ttl, w1)" and "TypeCmd c key w1 = (Inr t, w2)"
    and "t \<notin> supportedTypes"
  shows "exportKey c key False w =
           (Inl (Wrap ''failed to export value:   '' (Err (''unsupported type:   '' @ t))), w2) \<and>
         exportLoop c False (key # keys) keyDataList exported failed w =
           exportLoop c False keys keyDataList exported (failed + 1) w2 \<and>
         exportKey c key True w =
           (case DumpCmd c key w2 of
              (Inl err, w3) \<Rightarrow> (Inl (Wrap ''failed to dump key: '' err), w3)
            | (Inr dump, w3) \<Rightarrow>
                (Inr \<lparr>Key = key, Type = t, TTL = ttl, Value = VNil, Dump = dump\<rparr>, w3))"
proof -
  have a: "exportKey c key False w =
           (Inl (Wrap ''failed to export value:   '' (Err (''unsupported type:   '' @ t))), w2)"
    using assms by (simp add: exportKey_def exportValueByType_unsupported)
  have b: "exportKey c key True w =
           (case DumpCmd c key w2 of
              (Inl err, w3) \<Rightarrow> (Inl (Wrap ''failed to dump key: '' err), w3)
            | (Inr dump, w3) \<Rightarrow>
                (Inr \<lparr>Key = key, Type = t, TTL = ttl, Value = VNil, Dump = dump\<rparr>, w3))"
    using assms(1,2) by (simp add: exportKey_def split: prod.splits sum.splits)
  show ?thesis using a b by simp
qed

text \<open>
  C7, as stated, fails under the opaque strategy: the stream \<^verbatim>\<open>user:2\<close> of the sample
  source is captured.
\<close>

theorem unsupported_type_exported_by_dump_counterexample:
  "''stream'' \<notin> supportedTypes \<and>
   fst (TypeCmd sampleSource ''user:2'' ()) = Inr ''stream'' \<and>
   exportKey sampleSource ''user:2'' True () =
     (Inr \<lparr>Key = ''user:2'', Type = ''stream'', TTL = 60000000000, Value = VNil,
           Dump = ''payload of user:2''\<rparr>, ())"
  by (simp add: exportKey_sample_dump supportedTypes_def) (simp add: sampleSource_def stubClient_def)

text \<open>The stream \<^verbatim>\<open>user:2\<close> under the decomposed strategy.\<close>

theorem unsupported_type_fails_decomposed_capture_witness:
  "TTLCmd sampleSource ''user:2'' () = (Inr 60000000000, ()) \<and>
   TypeCmd sampleSource ''user:2'' () = (Inr ''stream'', ()) \<and>
   ''stream'' \<notin> supportedTypes \<and>
   exportKey sampleSource ''user:2'' False () =
     (Inl (Wrap ''failed to export value:   '' (Err ''unsupported type:   stream'')), ()) \<and>
   exportLoop sampleSource False [''user:2''] [] 0 0 () = (([], 0, 1), ())"
proof -
  have a: "TTLCmd sampleSource ''user:2'' () = (Inr 60000000000, ())"
    and b: "TypeCmd sampleSource ''user:2'' () = (Inr ''stream'', ())"
    by (simp_all add: sampleSource_def stubClient_def)
  have n: "''stream'' \<notin> supportedTypes" by (simp add: supportedTypes_def)
  from unsupported_type_fails_decomposed_capture [OF a b n, of "[]" "[]" 0 0] a b n
  show ?thesis by simp
qed

text \<open>
  C10. For a decomposed snapshot of type list, set, hash or zset with a positive time to
  live whose inserts succeeded, restoration returns no error although the \<^verbatim>\<open>Expire\<close>
  call that follows returned one; the import loop then counts the key as imported.
\<close>

theorem expire_error_is_discarded:
  assumes "0 <s TTL kd" and "Expire c (Key kd) (TTL kd) w1 = (Inl err, w2)"
  shows "(Type kd = ''list'' \<and> Value kd = VSlice vals \<and> rpushLoop c (Key kd) vals w = (None, w1)
            \<longrightarrow> importValueByType c kd w = (Return None, w2)) \<and>
         (Type kd = ''set'' \<and> Value kd = VSlice vals \<and> saddLoop c (Key kd) vals w = (None, w1)
            \<longrightarrow> importValueByType c kd w = (Return None, w2)) \<and>
         (Type kd = ''hash'' \<and> Value kd = VMap hvals \<and> HSet c (Key kd) hvals w = (None, w1)
            \<longrightarrow> importValueByType c kd w = (Return None, w2)) \<and>
         (Type kd = ''zset'' \<and> Value kd = VSlice vals \<and> zsetMembers vals [] = Return members \<and>
          ZAdd c (Key kd) members w = (None, w1)
            \<longrightarrow> importValueByType c kd w = (Return None, w2)) \<and>
         (importValueByType c kd w = (Return None, w2) \<and> \<not> (useDump \<and> length (Dump kd) > 0)
            \<longrightarrow> importLoop c useDump (kd # rest) imported failed w =
                  importLoop c useDump rest (imported + 1) failed w2)"
proof -
  have e: "expireIfTTL c (Key kd) (TTL kd) w1 = w2"
    using assms by (simp add: expireIfTTL_def)
  have "importValueByType c kd w = (Return None, w2)"
    if "Type kd = ''list'' \<and> Value kd = VSlice vals \<and> rpushLoop c (Key kd) vals w = (None, w1)"
    using that e by (simp add: importValueByType_def)
  moreover have "importValueByType c kd w = (Return None, w2)"
    if "Type kd = ''set'' \<and> Value kd = VSlice vals \<and> saddLoop c (Key kd) vals w = (None, w1)"
    using that e by (simp add: importValueByType_def)
  moreover have "importValueByType c kd w = (Return None, w2)"
    if "Type kd = ''hash'' \<and> Value kd = VMap hvals \<and> HSet c (Key kd) hvals w = (None, w1)"
    using that e by (simp add: importValueByType_def)
  moreover have "importValueByType c kd w = (Return None, w2)"
    if "Type kd = ''zset'' \<and> Value kd = VSlice vals \<and> zsetMembers vals [] = Return members \<and>
          ZAdd c (Key kd) members w = (None, w1)"
    using that e by (simp add: importValueByType_def)
  moreover have "importLoop c useDump (kd # rest) imported failed w =
                  importLoop c useDump rest (imported + 1) failed w2"
    if "importValueByType c kd w = (Return None, w2) \<and> \<not> (useDump \<and> length (Dump kd) > 0)"
    using that by (auto simp: importKey_def)
  ultimately show ?thesis by blast
qed


text \<open>A target whose \<^verbatim>\<open>EXPIRE\<close> fails, for one snapshot of each of the four types.\<close>

theorem expire_error_is_discarded_witness:
  "(0 :: duration) <s 60000000000 \<and>
   Expire expireFails ''session'' 60000000000 () = (Inl (Err ''i/o timeout''), ()) \<and>
   importValueByType expireFails (expiring ''list'' (VSlice [VString ''a''])) () = (Return None, ()) \<and>
   importValueByType expireFails (expiring ''set'' (VSlice [VString ''a''])) () = (Return None, ()) \<and>
   importValueByType expireFails (expiring ''hash'' (VMap [(''f'', VString ''a'')])) () = (Return None, ()) \<and>
   importValueByType expireFails
     (expiring ''zset'' (VSlice [VMap [(''Score'', VFloat64 0), (''Member'', VString ''a'')]])) () =
     (Return None, ()) \<and>
   importLoop expireFails False [expiring ''list'' (VSlice [VString ''a''])] 0 0 () = (Return (1, 0), ())"
proof -
  have t: "0 <s TTL (expiring ty v)" for ty v
    by (simp add: expiring_def word_sless_alt)
  have x: "Expire expireFails (Key (expiring ty v)) (TTL (expiring ty v)) () = (Inl (Err ''i/o timeout''), ())"
    for ty v
    by (simp add: expireFails_def stubClient_def)
  have w: "RPush expireFails = (\<lambda>k v w. (None, w))" "SAdd expireFails = (\<lambda>k v w. (None, w))"
    "HSet expireFails = (\<lambda>k v w. (None, w))" "ZAdd expireFails = (\<lambda>k v w. (None, w))"
    by (simp_all add: expireFails_def stubClient_def)
  note th = expire_error_is_discarded
    [where c = expireFails and w = "()" and ?w1.0 = "()" and ?w2.0 = "()", OF t x]
  have l: "importValueByType expireFails (expiring ''list'' (VSlice [VString ''a''])) () = (Return None, ())"
    using th [where vals = "[VString ''a'']" and ty1 = "''list''" and v1 = "VSlice [VString ''a'']"]
    by (simp add: expiring_def w)
  have s: "importValueByType expireFails (expiring ''set'' (VSlice [VString ''a''])) () = (Return None, ())"
    using th [where vals = "[VString ''a'']" and ty1 = "''set''" and v1 = "VSlice [VString ''a'']"]
    by (simp add: expiring_def w)
  have h: "importValueByType expireFails (expiring ''hash'' (VMap [(''f'', VString ''a'')])) () = (Return None, ())"
    using th [where hvals = "[(''f'', VString ''a'')]" and ty1 = "''hash''"
        and v1 = "VMap [(''f'', VString ''a'')]"]
    by (simp add: expiring_def w)
  have z: "importValueByType expireFails
     (expiring ''zset'' (VSlice [VMap [(''Score'', VFloat64 0), (''Member'', VString ''a'')]])) () =
     (Return None, ())"
    using th [where vals = "[VMap [(''Score'', VFloat64 0), (''Member'', VString ''a'')]]"
        and members = "[(0, VString ''a'')]" and ty1 = "''zset''"
        and v1 = "VSlice [VMap [(''Score'', VFloat64 0), (''Member'', VString ''a'')]]"]
    by (simp add: expiring_def w)
  have c: "importLoop expireFails False [expiring ''list'' (VSlice [VString ''a''])] 0 0 () = (Return (1, 0), ())"
    using th [where ty1 = "''list''" and v1 = "VSlice [VString ''a'']" and useDump = False
        and rest = "[]" and imported = 0 and failed = 0] l
    by simp
  from l s h z c x [of "''list''" VNil] t [of "''list''" VNil] show ?thesis
    by (simp add: expiring_def)
qed

section \<open>The export run\<close>

lemma exportLoop_captures:
  "exportLoop c u keys acc e f w =
     ((acc @ captured (fst (captures c u keys w)),
       e + length (captured (fst (captures c u keys w))),
       f + length (failures (fst (captures c u keys w)))),
      snd (captures c u keys w))"
proof (induction keys arbitrary: acc e f w)
  case Nil
  then show ?case by simp
next
  case (Cons k keys)
  obtain r w1 where x: "exportKey c k u w = (r, w1)" by (metis prod.exhaust)
  show ?case
  proof (cases r)
    case (Inl err)
    with x Cons.IH [of acc e "f + 1" w1] show ?thesis
      by (simp add: captures_Cons del: captures.simps(2))
  next
    case (Inr kd)
    with x Cons.IH [of "acc @ [kd]" "e + 1" f w1] show ?thesis
      by (simp add: captures_Cons del: captures.simps(2))
  qed
qed

lemma captured_failures_length: "length (captured outs) + length (failures outs) = length outs"
  by (induction outs rule: captured.induct) simp_all

lemma captures_length: "length (fst (captures c u keys w)) = length keys"
  using captures_keys [of c u keys w] by (metis length_map)

lemma captured_set: "set (captured outs) = {kd. \<exists>k. (k, Inr kd) \<in> set outs}"
  by (induction outs rule: captured.induct) auto

text \<open>
  C1, as amended. When the source answers the ping and discovery finds no key,
  \<^verbatim>\<open>exportKeys\<close> returns without error and the world is as discovery left it: the
  function returns at line 175, before \<^verbatim>\<open>os.Create\<close>, so no output file is created
  or written.
\<close>

theorem export_of_zero_keys_writes_no_file:
  assumes "Ping (NewClusterClient l (sourceOptions config)) w = (None, w1)"
    and "discoverKeys (NewClusterClient l (sourceOptions config)) config w1 = (Inr [], w2)"
  shows "exportKeys l config w = (None, w2)"
  using assms by (simp add: exportKeys_def)

lemma discover_stub: "discoverKeys stubClient cfg w = (Inr [], w)"
  by (simp add: discoverKeys_def stubClient_def scanMaster_def RangeKeys_def)

text \<open>
  C1, as stated, fails: the export of a cluster without keys returns without error and
  the output file does not exist afterwards.
\<close>

theorem export_of_zero_keys_counterexample:
  "discoverKeys stubClient defaultConfig emptyWorld = (Inr [], emptyWorld) \<and>
   exportKeys (memLib stubClient) defaultConfig emptyWorld = (None, emptyWorld) \<and>
   OutputFile defaultConfig = ''redis-dump.json'' \<and>
   files emptyWorld ''redis-dump.json'' = None"
proof -
  have p: "Ping (stubClient :: world client) = (\<lambda>w. (None, w))"
    by (simp add: stubClient_def)
  have "exportKeys (memLib stubClient) defaultConfig emptyWorld = (None, emptyWorld)"
    by (simp add: exportKeys_def memLib_def p discover_stub)
  then show ?thesis
    by (simp add: discover_stub) (simp add: defaultConfig_def emptyWorld_def)
qed

text \<open>The export of the cluster without keys.\<close>

theorem export_of_zero_keys_writes_no_file_witness:
  "Ping (NewClusterClient (memLib stubClient) (sourceOptions defaultConfig)) emptyWorld = (None, emptyWorld) \<and>
   discoverKeys (NewClusterClient (memLib stubClient) (sourceOptions defaultConfig)) defaultConfig emptyWorld =
     (Inr [], emptyWorld) \<and>
   exportKeys (memLib stubClient) defaultConfig emptyWorld = (None, emptyWorld)"
proof -
  have c: "NewClusterClient (memLib stubClient) (sourceOptions defaultConfig) = stubClient"
    by (simp add: memLib_def)
  have p: "Ping (NewClusterClient (memLib stubClient) (sourceOptions defaultConfig)) emptyWorld =
             (None, emptyWorld)"
    unfolding c by (simp add: stubClient_def)
  have d: "discoverKeys (NewClusterClient (memLib stubClient) (sourceOptions defaultConfig))
             defaultConfig emptyWorld = (Inr [], emptyWorld)"
    unfolding c by (rule discover_stub)
  from export_of_zero_keys_writes_no_file [OF p d] p d show ?thesis by simp
qed

text \<open>
  C5, as amended. When exactly one of the calls of \<^verbatim>\<open>exportKey\<close> over the \<open>N\<close>
  discovered keys fails, the loop does not stop: it ends with \<open>N - 1\<close> exported keys and
  the failure counter 1, and its list holds the \<open>N - 1\<close> snapshots of the calls that
  succeeded and nothing else. \<^verbatim>\<open>exportKeys\<close> then writes exactly that list: it returns
  without error when the file is created and the list encoded, and returns the error of
  \<^verbatim>\<open>os.Create\<close> or of \<^verbatim>\<open>Encode\<close> when one of them fails.
\<close>

theorem one_capture_failure_does_not_abort:
  assumes "Ping (NewClusterClient l (sourceOptions config)) w = (None, w1)"
    and "discoverKeys (NewClusterClient l (sourceOptions config)) config w1 = (Inr keys, w2)"
    and "captures (NewClusterClient l (sourceOptions config)) (UseRDBDump config) keys w2 = (outs, w3)"
    and "length (failures outs) = 1"
  shows "exportLoop (NewClusterClient l (sourceOptions config)) (UseRDBDump config) keys [] 0 0 w2 =
           ((captured outs, length keys - 1, 1), w3) \<and>
         length (captured outs) = length keys - 1 \<and>
         set (captured outs) = {kd. \<exists>k. (k, Inr kd) \<in> set outs} \<and>
         exportKeys l config w = writeExport l config (captured outs) w3 \<and>
         (\<forall>f w4 w5.
            Create l (OutputFile config) w3 = (Inr f, w4) \<and>
            Encode l f (captured outs) w4 = (None, w5) \<longrightarrow>
              exportKeys l config w = (None, w5)) \<and>
         (\<forall>f w4 err w5.
            Create l (OutputFile config) w3 = (Inr f, w4) \<and>
            Encode l f (captured outs) w4 = (Some err, w5) \<longrightarrow>
              exportKeys l config w = (Some (Wrap ''failed to write JSON:   '' err), w5)) \<and>
         (\<forall>err w4.
            Create l (OutputFile config) w3 = (Inl err, w4) \<longrightarrow>
              exportKeys l config w = (Some (Wrap ''failed to create output file: '' err), w4))"
proof -
  let ?c = "NewClusterClient l (sourceOptions config)"
  have n: "length outs = length keys"
    using captures_length [of ?c "UseRDBDump config" keys w2] assms(3) by simp
  have m: "length (captured outs) = length keys - 1"
    using captured_failures_length [of outs] assms(4) n by simp
  have k: "keys \<noteq> []"
    using captured_failures_length [of outs] assms(4) n by auto
  have loop: "exportLoop ?c (UseRDBDump config) keys [] 0 0 w2 =
           ((captured outs, length keys - 1, 1), w3)"
    using assms(3,4) m by (simp add: exportLoop_captures)
  have run: "exportKeys l config w = writeExport l config (captured outs) w3"
    using assms(1,2) k loop by (simp add: exportKeys_def)
  have ok: "exportKeys l config w = (None, w5)"
    if "Create l (OutputFile config) w3 = (Inr f, w4) \<and>
        Encode l f (captured outs) w4 = (None, w5)" for f w4 w5
    using that run by (simp add: writeExport_def)
  have enc: "exportKeys l config w = (Some (Wrap ''failed to write JSON:   '' err), w5)"
    if "Create l (OutputFile config) w3 = (Inr f, w4) \<and>
        Encode l f (captured outs) w4 = (Some err, w5)" for f w4 err w5
    using that run by (simp add: writeExport_def)
  have cre: "exportKeys l config w = (Some (Wrap ''failed to create output file: '' err), w4)"
    if "Create l (OutputFile config) w3 = (Inl err, w4)" for err w4
    using that run by (simp add: writeExport_def)
  from loop m run captured_set [of outs] ok enc cre show ?thesis by blast
qed

lemma exportKey_sample_value:
  "exportKey sampleSource key False w =
     (if key = ''user:2''
      then Inl (Wrap ''failed to export value:   '' (Err ''unsupported type:   stream''))
      else Inr (sampleString key (if key = ''user:1'' then - 1 else 60000000000)), w)"
  by (simp add: exportKey_def exportValueByType_def valueReply_def sampleSource_def stubClient_def
      sampleString_def)

text \<open>
  The sample source under the decomposed strategy: the stream \<^verbatim>\<open>user:2\<close> fails, the
  other two keys are written.
\<close>

theorem one_capture_failure_does_not_abort_witness:
  "Ping (NewClusterClient (memLib sampleSource) (sourceOptions decomposedConfig)) emptyWorld =
     (None, emptyWorld) \<and>
   discoverKeys (NewClusterClient (memLib sampleSource) (sourceOptions decomposedConfig))
       decomposedConfig emptyWorld =
     (Inr [''user:1'', ''user:2'', ''user:3''], emptyWorld) \<and>
   captures (NewClusterClient (memLib sampleSource) (sourceOptions decomposedConfig))
       (UseRDBDump decomposedConfig) [''user:1'', ''user:2'', ''user:3''] emptyWorld =
     ([(''user:1'', Inr (sampleString ''user:1'' (- 1))),
       (''user:2'', Inl (Wrap ''failed to export value:   '' (Err ''unsupported type:   stream''))),
       (''user:3'', Inr (sampleString ''user:3'' 60000000000))], emptyWorld) \<and>
   exportLoop sampleSource False [''user:1'', ''user:2'', ''user:3''] [] 0 0 emptyWorld =
     (([sampleString ''user:1'' (- 1), sampleString ''user:3'' 60000000000], 2, 1), emptyWorld) \<and>
   exportKeys (memLib sampleSource) decomposedConfig emptyWorld =
     (None, emptyWorld\<lparr>files := [''redis-dump.json'' \<mapsto>
        Encoded [sampleString ''user:1'' (- 1), sampleString ''user:3'' 60000000000]]\<rparr>)"
proof -
  let ?outs = "[(''user:1'', Inr (sampleString ''user:1'' (- 1))),
       (''user:2'', Inl (Wrap ''failed to export value:   '' (Err ''unsupported type:   stream''))),
       (''user:3'', Inr (sampleString ''user:3'' 60000000000))]"
  let ?kds = "[sampleString ''user:1'' (- 1), sampleString ''user:3'' 60000000000]"
  have c: "NewClusterClient (memLib sampleSource) (sourceOptions decomposedConfig) = sampleSource"
    by (simp add: memLib_def)
  have u: "UseRDBDump decomposedConfig = False"
    and o: "OutputFile decomposedConfig = ''redis-dump.json''"
    by (simp_all add: decomposedConfig_def defaultConfig_def)
  have p: "Ping (NewClusterClient (memLib sampleSource) (sourceOptions decomposedConfig)) emptyWorld =
     (None, emptyWorld)"
    unfolding c by (simp add: sampleSource_def stubClient_def)
  have d: "discoverKeys (NewClusterClient (memLib sampleSource) (sourceOptions decomposedConfig))
       decomposedConfig emptyWorld = (Inr [''user:1'', ''user:2'', ''user:3''], emptyWorld)"
    unfolding c
    by (simp add: discoverKeys_def sampleSource_def stubClient_def scanMaster_def LoadOrStore_def
        RangeKeys_def)
  have x: "captures (NewClusterClient (memLib sampleSource) (sourceOptions decomposedConfig))
       (UseRDBDump decomposedConfig) [''user:1'', ''user:2'', ''user:3''] emptyWorld =
     (?outs, emptyWorld)"
    unfolding c u by (simp add: exportKey_sample_value)
  have f: "length (failures ?outs) = 1" by simp
  have k: "captured ?outs = ?kds" by simp
  have w: "Create (memLib sampleSource) (OutputFile decomposedConfig) emptyWorld =
             (Inr ''redis-dump.json'', emptyWorld\<lparr>files := [''redis-dump.json'' \<mapsto> Truncated]\<rparr>) \<and>
           Encode (memLib sampleSource) ''redis-dump.json'' (captured ?outs)
               (emptyWorld\<lparr>files := [''redis-dump.json'' \<mapsto> Truncated]\<rparr>) =
             (None, emptyWorld\<lparr>files := [''redis-dump.json'' \<mapsto> Encoded ?kds]\<rparr>)"
    unfolding o
    by (simp add: memLib_def emptyWorld_def jsonKeyData_def jsonValue_def sampleString_def)
  note t = one_capture_failure_does_not_abort [OF p d x f]
  from t have l: "exportLoop sampleSource False [''user:1'', ''user:2'', ''user:3''] [] 0 0 emptyWorld =
     ((?kds, 2, 1), emptyWorld)"
    unfolding c u k by simp
  from t w have r: "exportKeys (memLib sampleSource) decomposedConfig emptyWorld =
     (None, emptyWorld\<lparr>files := [''redis-dump.json'' \<mapsto> Encoded ?kds]\<rparr>)"
    by blast
  from p d x l r show ?thesis by blast
qed

text \<open>
  C5, as stated, fails: with one failed capture out of three and a disk that is full, the
  run returns the error of the encoder and leaves an empty file.
\<close>

theorem one_capture_failure_write_error_counterexample:
  "captures sampleSource False [''user:1'', ''user:2'', ''user:3''] emptyWorld =
     ([(''user:1'', Inr (sampleString ''user:1'' (- 1))),
       (''user:2'', Inl (Wrap ''failed to export value:   '' (Err ''unsupported type:   stream''))),
       (''user:3'', Inr (sampleString ''user:3'' 60000000000))], emptyWorld) \<and>
   length (failures
     [(''user:1'', Inr (sampleString ''user:1'' (- 1))),
      (''user:2'', Inl (Wrap ''failed to export value:   '' (Err ''unsupported type:   stream''))),
      (''user:3'', Inr (sampleString ''user:3'' 60000000000))]) = 1 \<and>
   exportKeys (diskFullLib sampleSource) decomposedConfig emptyWorld =
     (Some (Wrap ''failed to write JSON:   '' (Err ''no space left on device'')),
      emptyWorld\<lparr>files := [''redis-dump.json'' \<mapsto> Truncated]\<rparr>)"
proof -
  have p: "Ping (sampleSource :: world client) = (\<lambda>w. (None, w))"
    by (simp add: sampleSource_def stubClient_def)
  have u: "UseRDBDump decomposedConfig = False"
    and o: "OutputFile decomposedConfig = ''redis-dump.json''"
    by (simp_all add: decomposedConfig_def defaultConfig_def)
  have d: "discoverKeys sampleSource decomposedConfig w =
             (Inr [''user:1'', ''user:2'', ''user:3''], w)" for w :: world
    by (simp add: discoverKeys_def sampleSource_def stubClient_def scanMaster_def LoadOrStore_def
        RangeKeys_def)
  have "exportKeys (diskFullLib sampleSource) decomposedConfig emptyWorld =
     (Some (Wrap ''failed to write JSON:   '' (Err ''no space left on device'')),
      emptyWorld\<lparr>files := [''redis-dump.json'' \<mapsto> Truncated]\<rparr>)"
    by (simp add: exportKeys_def diskFullLib_def memLib_def p d u o exportKey_sample_value
        writeExport_def emptyWorld_def)
  then show ?thesis by (simp add: exportKey_sample_value)
qed

section \<open>Importing a file twice\<close>

lemma restoreAll_map_add:
  "restoreAll kds m =
     m ++ map_of (rev (map (\<lambda>kd. (Key kd, (Restored (Dump kd), restoredTTL (TTL kd)))) kds))"
proof (induction kds arbitrary: m)
  case Nil
  then show ?case by simp
next
  case (Cons kd kds)
  have "m(Key kd \<mapsto> (Restored (Dump kd), restoredTTL (TTL kd))) =
          m ++ [Key kd \<mapsto> (Restored (Dump kd), restoredTTL (TTL kd))]"
    by simp
  then show ?case
    using Cons.IH [of "m(Key kd \<mapsto> (Restored (Dump kd), restoredTTL (TTL kd)))"]
    by (simp only: restoreAll.simps list.map rev.simps map_of_append map_add_assoc map_of.simps
        fst_conv snd_conv map_add_empty)
qed

lemma map_add_twice: "(m ++ g) ++ g = m ++ g"
  by (rule ext) (simp add: map_add_def split: option.split)

lemma restoreAll_twice: "restoreAll kds (restoreAll kds m) = restoreAll kds m"
  by (simp add: restoreAll_map_add [of kds] map_add_twice)

lemma importKey_mem_dump:
  "Dump kd \<noteq> [] \<Longrightarrow>
     importKey memClient kd True w =
       (Return None, w\<lparr>db := (db w)(Key kd \<mapsto> (Restored (Dump kd), restoredTTL (TTL kd)))\<rparr>)"
  by (simp add: importKey_def memClient_def stubClient_def memRestoreReplace_def restoredTTL_def)

lemma importLoop_mem_dump:
  "\<forall>kd\<in>set kds. Dump kd \<noteq> [] \<Longrightarrow>
     importLoop memClient True kds imported failed w =
       (Return (imported + length kds, failed), w\<lparr>db := restoreAll kds (db w)\<rparr>)"
proof (induction kds arbitrary: imported w)
  case Nil
  then show ?case by simp
next
  case (Cons kd kds)
  then have h: "Dump kd \<noteq> []" and t: "\<forall>kd\<in>set kds. Dump kd \<noteq> []" by simp_all
  show ?case
    using Cons.IH [OF t] by (simp add: importKey_mem_dump [OF h])
qed

lemma importKeys_mem_dump:
  assumes "UseRDBDump cfg" and "files w (InputFile cfg) = Some (Encoded kds)"
    and "\<forall>kd\<in>set kds. Dump kd \<noteq> []"
  shows "importKeys (memLib memClient) cfg w = (Return None, w\<lparr>db := restoreAll kds (db w)\<rparr>)"
proof (cases kds)
  case Nil
  with assms(2) show ?thesis by (simp add: importKeys_def memLib_def)
next
  case (Cons kd rest)
  have p: "Ping memClient = (\<lambda>w. (None, w))"
    by (simp add: memClient_def stubClient_def)
  from Cons assms show ?thesis
    by (simp add: importKeys_def memLib_def p importLoop_mem_dump del: importLoop.simps)
qed

lemma importKeys_mem_missing:
  "files w (InputFile cfg) = None \<Longrightarrow>
     importKeys (memLib memClient) cfg w =
       (Return (Some (Wrap ''failed to open input file: '' (Err ''no such file or directory''))), w)"
  by (simp add: importKeys_def memLib_def)

lemma importKeys_mem_truncated:
  "files w (InputFile cfg) = Some Truncated \<Longrightarrow>
     importKeys (memLib memClient) cfg w =
       (Return (Some (Wrap ''failed to parse JSON: '' (Err ''EOF''))), w)"
  by (simp add: importKeys_def memLib_def)

text \<open>
  C8, as amended. On the target whose \<^verbatim>\<open>RESTORE ... REPLACE\<close> creates or overwrites
  the key, under the opaque strategy and for a file whose snapshots all carry a payload,
  a second import of the file returns what the first returned and leaves the world the
  first import left, for every state of the target.
\<close>

theorem opaque_import_twice_is_import_once:
  assumes "UseRDBDump cfg"
    and "\<forall>kds. files w (InputFile cfg) = Some (Encoded kds) \<longrightarrow> (\<forall>kd\<in>set kds. Dump kd \<noteq> [])"
  shows "importKeys (memLib memClient) cfg (snd (importKeys (memLib memClient) cfg w)) =
           importKeys (memLib memClient) cfg w"
proof (cases "files w (InputFile cfg)")
  case None
  then show ?thesis by (simp add: importKeys_mem_missing)
next
  case (Some content)
  show ?thesis
  proof (cases content)
    case Truncated
    with Some show ?thesis by (simp add: importKeys_mem_truncated)
  next
    case (Encoded kds)
    with Some have s: "files w (InputFile cfg) = Some (Encoded kds)" by simp
    with assms(2) have d: "\<forall>kd\<in>set kds. Dump kd \<noteq> []" by simp
    let ?w' = "w\<lparr>db := restoreAll kds (db w)\<rparr>"
    have 1: "importKeys (memLib memClient) cfg w = (Return None, ?w')"
      using assms(1) s d by (rule importKeys_mem_dump)
    have f: "files ?w' (InputFile cfg) = Some (Encoded kds)" using s by simp
    have 2: "importKeys (memLib memClient) cfg ?w' =
               (Return None, ?w'\<lparr>db := restoreAll kds (db ?w')\<rparr>)"
      using assms(1) f d by (rule importKeys_mem_dump)
    show ?thesis by (simp add: 1 2 restoreAll_twice)
  qed
qed

text \<open>
  C8, as stated, fails under the decomposed strategy: a list snapshot is appended to the
  key again by the second import.
\<close>

theorem decomposed_list_import_twice_counterexample:
  "importKeys (memLib memClient) listImportConfig listImportWorld =
     (Return None, listImportWorld\<lparr>db := [''queue'' \<mapsto> (ListOf [VString ''job''], 0)]\<rparr>) \<and>
   importKeys (memLib memClient) listImportConfig
       (snd (importKeys (memLib memClient) listImportConfig listImportWorld)) =
     (Return None,
      listImportWorld\<lparr>db := [''queue'' \<mapsto> (ListOf [VString ''job'', VString ''job''], 0)]\<rparr>) \<and>
   ListOf [VString ''job'', VString ''job''] \<noteq> ListOf [VString ''job'']"
proof -
  have p: "Ping memClient = (\<lambda>w. (None, w))" and r: "RPush memClient = memRPush"
    by (simp_all add: memClient_def stubClient_def)
  have c: "InputFile listImportConfig = ''redis-dump.json''" "UseRDBDump listImportConfig = False"
    by (simp_all add: listImportConfig_def defaultConfig_def)
  have k: "importKey memClient listSnapshot False w =
             (case memRPush ''queue'' (VString ''job'') w of
                (Some err, w1) \<Rightarrow> (Return (Some err), w1)
              | (None, w1) \<Rightarrow> (Return None, w1))" for w
    by (simp add: importKey_def importValueByType_def listSnapshot_def r expireIfTTL_def
        word_sless_alt split: prod.splits option.splits)
  have 1: "importKeys (memLib memClient) listImportConfig listImportWorld =
     (Return None, listImportWorld\<lparr>db := [''queue'' \<mapsto> (ListOf [VString ''job''], 0)]\<rparr>)"
    by (simp add: importKeys_def memLib_def c p k listImportWorld_def emptyWorld_def memRPush_def)
  have 2: "importKeys (memLib memClient) listImportConfig
      (listImportWorld\<lparr>db := [''queue'' \<mapsto> (ListOf [VString ''job''], 0)]\<rparr>) =
     (Return None,
      listImportWorld\<lparr>db := [''queue'' \<mapsto> (ListOf [VString ''job'', VString ''job''], 0)]\<rparr>)"
    by (simp add: importKeys_def memLib_def c p k listImportWorld_def emptyWorld_def memRPush_def)
  show ?thesis by (simp add: 1 2)
qed


text \<open>Two opaque snapshots imported twice over a target that already holds one of the keys.\<close>

theorem opaque_import_twice_is_import_once_witness:
  "UseRDBDump opaqueImportConfig \<and>
   files opaqueImportWorld (InputFile opaqueImportConfig) =
     Some (Encoded [sampleDump ''user:1'' (- 1), sampleDump ''user:3'' 60000000000]) \<and>
   Dump (sampleDump ''user:1'' (- 1)) \<noteq> [] \<and> Dump (sampleDump ''user:3'' 60000000000) \<noteq> [] \<and>
   importKeys (memLib memClient) opaqueImportConfig opaqueImportWorld =
     (Return None,
      opaqueImportWorld\<lparr>db := [''user:1'' \<mapsto> (Restored ''payload of user:1'', 0),
                                ''user:3'' \<mapsto> (Restored ''payload of user:3'', 60000000000)]\<rparr>) \<and>
   importKeys (memLib memClient) opaqueImportConfig
       (snd (importKeys (memLib memClient) opaqueImportConfig opaqueImportWorld)) =
     importKeys (memLib memClient) opaqueImportConfig opaqueImportWorld"
proof -
  have u: "UseRDBDump opaqueImportConfig"
    and i: "InputFile opaqueImportConfig = ''redis-dump.json''"
    by (simp_all add: opaqueImportConfig_def defaultConfig_def)
  have f: "files opaqueImportWorld (InputFile opaqueImportConfig) =
     Some (Encoded [sampleDump ''user:1'' (- 1), sampleDump ''user:3'' 60000000000])"
    unfolding i by (simp add: opaqueImportWorld_def)
  have d: "Dump (sampleDump ''user:1'' (- 1)) \<noteq> []" "Dump (sampleDump ''user:3'' 60000000000) \<noteq> []"
    by (simp_all add: sampleDump_def)
  have h: "\<forall>kds. files opaqueImportWorld (InputFile opaqueImportConfig) = Some (Encoded kds) \<longrightarrow>
             (\<forall>kd\<in>set kds. Dump kd \<noteq> [])"
    using f d by simp
  have p: "Ping memClient = (\<lambda>w. (None, w))" and r: "RestoreReplace memClient = memRestoreReplace"
    by (simp_all add: memClient_def stubClient_def)
  have k: "importKey memClient (sampleDump key ttl) True w =
             (Return None, w\<lparr>db := (db w)(key \<mapsto> (Restored (''payload of '' @ key),
                                                      if ttl <s 0 then 0 else ttl))\<rparr>)" for key ttl w
    by (simp add: importKey_def sampleDump_def r memRestoreReplace_def)
  have once: "importKeys (memLib memClient) opaqueImportConfig opaqueImportWorld =
     (Return None,
      opaqueImportWorld\<lparr>db := [''user:1'' \<mapsto> (Restored ''payload of user:1'', 0),
                                ''user:3'' \<mapsto> (Restored ''payload of user:3'', 60000000000)]\<rparr>)"
    unfolding importKeys_def i
    by (simp add: memLib_def u p k opaqueImportWorld_def word_sless_alt)
  from opaque_import_twice_is_import_once [OF u h] u f d once show ?thesis by simp
qed

section \<open>The strategy flag and the time to live across a run\<close>

lemma exportKey_fields:
  assumes "exportKey c k u w0 = (Inr kd, w1)"
  shows "Key kd = k" and "fst (TTLCmd c k w0) = Inr (TTL kd)"
    and "u \<Longrightarrow> Value kd = VNil \<and> (\<exists>w2. DumpCmd c k w2 = (Inr (Dump kd), w1))"
    and "\<not> u \<Longrightarrow> Dump kd = [] \<and> Value kd \<noteq> VNil"
proof -
  show "Key kd = k"
    using assms by (auto simp: exportKey_def Let_def split: prod.splits sum.splits if_splits)
  show "fst (TTLCmd c k w0) = Inr (TTL kd)"
    using assms by (auto simp: exportKey_def Let_def split: prod.splits sum.splits if_splits)
  show "Value kd = VNil \<and> (\<exists>w2. DumpCmd c k w2 = (Inr (Dump kd), w1))" if u
    using assms that by (auto simp: exportKey_def Let_def split: prod.splits sum.splits)
  show "Dump kd = [] \<and> Value kd \<noteq> VNil" if "\<not> u"
    using assms that
    by (auto simp: exportKey_def Let_def exportValueByType_def valueReply_def
        split: prod.splits sum.splits if_splits)
qed

lemma exportLoop_snapshots:
  "exportLoop c u keys acc e f w = ((kds, e', f'), w') \<Longrightarrow> kd \<in> set kds \<Longrightarrow>
     kd \<in> set acc \<or> (\<exists>k\<in>set keys. \<exists>w0 w1. exportKey c k u w0 = (Inr kd, w1))"
proof (induction keys arbitrary: acc e f w)
  case Nil
  then show ?case by simp
next
  case (Cons k keys)
  obtain r w1 where x: "exportKey c k u w = (r, w1)" by (metis prod.exhaust)
  show ?case
  proof (cases r)
    case (Inl err)
    with x Cons.prems(1)
    have "exportLoop c u keys acc e (f + 1) w1 = ((kds, e', f'), w')" by simp
    from Cons.IH [OF this Cons.prems(2)] show ?thesis by auto
  next
    case (Inr snap)
    with x Cons.prems(1)
    have "exportLoop c u keys (acc @ [snap]) (e + 1) f w1 = ((kds, e', f'), w')" by simp
    from Cons.IH [OF this Cons.prems(2)] x Inr show ?thesis by auto
  qed
qed

lemma exportLoop_run_snapshots:
  assumes "exportLoop c u keys [] 0 0 w = ((kds, e', f'), w')" and "kd \<in> set kds"
  shows "Key kd \<in> set keys" and "\<exists>w0. fst (TTLCmd c (Key kd) w0) = Inr (TTL kd)"
    and "u \<Longrightarrow> Value kd = VNil \<and> (\<exists>w0 w1. DumpCmd c (Key kd) w0 = (Inr (Dump kd), w1))"
    and "\<not> u \<Longrightarrow> Dump kd = [] \<and> Value kd \<noteq> VNil"
proof -
  from exportLoop_snapshots [OF assms] obtain k w0 w1
    where k: "k \<in> set keys" and x: "exportKey c k u w0 = (Inr kd, w1)" by auto
  note f = exportKey_fields [OF x]
  from f(1) k show "Key kd \<in> set keys" by simp
  from f(1,2) show "\<exists>w0. fst (TTLCmd c (Key kd) w0) = Inr (TTL kd)" by auto
  show "Value kd = VNil \<and> (\<exists>w0 w1. DumpCmd c (Key kd) w0 = (Inr (Dump kd), w1))" if u
    using f(1) f(3) [OF that] by auto
  show "Dump kd = [] \<and> Value kd \<noteq> VNil" if "\<not> u"
    using f(4) [OF that] .
qed

lemma exportKeys_run:
  assumes "Ping (NewClusterClient l (sourceOptions config)) w = (None, w1)"
    and "discoverKeys (NewClusterClient l (sourceOptions config)) config w1 = (Inr keys, w2)"
    and "keys \<noteq> []"
    and "exportLoop (NewClusterClient l (sourceOptions config)) (UseRDBDump config) keys [] 0 0 w2 =
           ((kds, exported, failed), w3)"
  shows "exportKeys l config w = writeExport l config kds w3"
  using assms by (simp add: exportKeys_def)





lemma importValueByType_string:
  "Type kd = ''string'' \<Longrightarrow> Value kd = VString val \<Longrightarrow>
     importValueByType c kd w =
       (case SetCmd c (Key kd) val (TTL kd) w of (err, w1) \<Rightarrow> (Return err, w1))"
  by (simp add: importValueByType_def split: prod.splits option.splits)

lemma importValueByType_list:
  "Type kd = ''list'' \<Longrightarrow> Value kd = VSlice vals \<Longrightarrow>
     importValueByType c kd w =
       (case rpushLoop c (Key kd) vals w of
          (Some err, w1) \<Rightarrow> (Return (Some err), w1)
        | (None, w1) \<Rightarrow>
            (Return None, if 0 <s TTL kd then snd (Expire c (Key kd) (TTL kd) w1) else w1))"
  by (simp add: importValueByType_def expireIfTTL_def Let_def split: prod.splits option.splits)

lemma importValueByType_set:
  "Type kd = ''set'' \<Longrightarrow> Value kd = VSlice vals \<Longrightarrow>
     importValueByType c kd w =
       (case saddLoop c (Key kd) vals w of
          (Some err, w1) \<Rightarrow> (Return (Some err), w1)
        | (None, w1) \<Rightarrow>
            (Return None, if 0 <s TTL kd then snd (Expire c (Key kd) (TTL kd) w1) else w1))"
  by (simp add: importValueByType_def expireIfTTL_def Let_def split: prod.splits option.splits)

lemma importValueByType_hash:
  "Type kd = ''hash'' \<Longrightarrow> Value kd = VMap hvals \<Longrightarrow>
     importValueByType c kd w =
       (case HSet c (Key kd) hvals w of
          (Some err, w1) \<Rightarrow> (Return (Some err), w1)
        | (None, w1) \<Rightarrow>
            (Return None, if 0 <s TTL kd then snd (Expire c (Key kd) (TTL kd) w1) else w1))"
  by (simp add: importValueByType_def expireIfTTL_def Let_def split: prod.splits option.splits)

lemma importValueByType_zset:
  "Type kd = ''zset'' \<Longrightarrow> Value kd = VSlice vals \<Longrightarrow> zsetMembers vals [] = Return members \<Longrightarrow>
     importValueByType c kd w =
       (case ZAdd c (Key kd) members w of
          (Some err, w1) \<Rightarrow> (Return (Some err), w1)
        | (None, w1) \<Rightarrow>
            (Return None, if 0 <s TTL kd then snd (Expire c (Key kd) (TTL kd) w1) else w1))"
  by (simp add: importValueByType_def expireIfTTL_def Let_def split: prod.splits option.splits)

lemma importKey_paths:
  "importKey c kd useDump w =
     (if useDump \<and> Dump kd \<noteq> []
      then (case RestoreReplace c (Key kd) (if TTL kd <s 0 then 0 else TTL kd) (Dump kd) w of
              (err, w1) \<Rightarrow> (Return err, w1))
      else importValueByType c kd w)"
  by (simp add: importKey_def)

lemma writeExport_created:
  "Create l (OutputFile config) w = (Inr fh, w1) \<Longrightarrow>
     writeExport l config kds w =
       (case Encode l fh kds w1 of
          (Some err, w2) \<Rightarrow> (Some (Wrap ''failed to write JSON:   '' err), w2)
        | (None, w2) \<Rightarrow> (None, w2))"
  by (simp add: writeExport_def)

text \<open>
  C2, as amended. The time to live of a captured snapshot is the value the \<^verbatim>\<open>TTL\<close>
  read returned, unchanged, also when it is negative; this holds for every snapshot of
  the list the capture loop builds, and \<^verbatim>\<open>exportKeys\<close> hands that list to the encoder
  as it is. At restoration a negative time to live becomes zero in one place only, the
  argument of the \<^verbatim>\<open>RestoreReplace\<close> request of the opaque path. The reconstruction by
  type passes the stored value on as it is: to \<^verbatim>\<open>Set\<close> for a string, and to \<^verbatim>\<open>Expire\<close>
  for a list, set, hash or zset when it is positive, with no \<^verbatim>\<open>Expire\<close> call otherwise.
\<close>

theorem persisted_ttl_is_the_ttl_read:
  "(exportKey c key useDump w = (Inr kd, w') \<longrightarrow> fst (TTLCmd c key w) = Inr (TTL kd)) \<and>
   (Ping (NewClusterClient l (sourceOptions config)) w = (None, w1) \<and>
    discoverKeys (NewClusterClient l (sourceOptions config)) config w1 = (Inr keys, w2) \<and>
    keys \<noteq> [] \<and>
    exportLoop (NewClusterClient l (sourceOptions config)) (UseRDBDump config) keys [] 0 0 w2 =
      ((kds, exported, failed), w3) \<longrightarrow>
      (\<forall>snap\<in>set kds.
         \<exists>w0. fst (TTLCmd (NewClusterClient l (sourceOptions config)) (Key snap) w0) = Inr (TTL snap)) \<and>
      exportKeys l config w = writeExport l config kds w3 \<and>
      (\<forall>fh w4. Create l (OutputFile config) w3 = (Inr fh, w4) \<longrightarrow>
         exportKeys l config w =
           (case Encode l fh kds w4 of
              (Some err, w5) \<Rightarrow> (Some (Wrap ''failed to write JSON:   '' err), w5)
            | (None, w5) \<Rightarrow> (None, w5)))) \<and>
   importKey c' kd useDump' wi =
     (if useDump' \<and> Dump kd \<noteq> []
      then (case RestoreReplace c' (Key kd) (if TTL kd <s 0 then 0 else TTL kd) (Dump kd) wi of
              (err, wj) \<Rightarrow> (Return err, wj))
      else importValueByType c' kd wi) \<and>
   (Type kd = ''string'' \<and> Value kd = VString val \<longrightarrow>
      importValueByType c' kd wi =
        (case SetCmd c' (Key kd) val (TTL kd) wi of (err, wj) \<Rightarrow> (Return err, wj))) \<and>
   (Type kd = ''list'' \<and> Value kd = VSlice vals \<longrightarrow>
      importValueByType c' kd wi =
        (case rpushLoop c' (Key kd) vals wi of
           (Some err, wj) \<Rightarrow> (Return (Some err), wj)
         | (None, wj) \<Rightarrow>
             (Return None, if 0 <s TTL kd then snd (Expire c' (Key kd) (TTL kd) wj) else wj))) \<and>
   (Type kd = ''set'' \<and> Value kd = VSlice vals \<longrightarrow>
      importValueByType c' kd wi =
        (case saddLoop c' (Key kd) vals wi of
           (Some err, wj) \<Rightarrow> (Return (Some err), wj)
         | (None, wj) \<Rightarrow>
             (Return None, if 0 <s TTL kd then snd (Expire c' (Key kd) (TTL kd) wj) else wj))) \<and>
   (Type kd = ''hash'' \<and> Value kd = VMap hvals \<longrightarrow>
      importValueByType c' kd wi =
        (case HSet c' (Key kd) hvals wi of
           (Some err, wj) \<Rightarrow> (Return (Some err), wj)
         | (None, wj) \<Rightarrow>
             (Return None, if 0 <s TTL kd then snd (Expire c' (Key kd) (TTL kd) wj) else wj))) \<and>
   (Type kd = ''zset'' \<and> Value kd = VSlice vals \<and> zsetMembers vals [] = Return members \<longrightarrow>
      importValueByType c' kd wi =
        (case ZAdd c' (Key kd) members wi of
           (Some err, wj) \<Rightarrow> (Return (Some err), wj)
         | (None, wj) \<Rightarrow>
             (Return None, if 0 <s TTL kd then snd (Expire c' (Key kd) (TTL kd) wj) else wj)))"
proof -
  let ?cl = "NewClusterClient l (sourceOptions config)"
  have a: "fst (TTLCmd c key w) = Inr (TTL kd)" if "exportKey c key useDump w = (Inr kd, w')"
    using exportKey_fields(2) [OF that] .
  have b: "(\<forall>snap\<in>set kds. \<exists>w0. fst (TTLCmd ?cl (Key snap) w0) = Inr (TTL snap)) \<and>
      exportKeys l config w = writeExport l config kds w3 \<and>
      (\<forall>fh w4. Create l (OutputFile config) w3 = (Inr fh, w4) \<longrightarrow>
         exportKeys l config w =
           (case Encode l fh kds w4 of
              (Some err, w5) \<Rightarrow> (Some (Wrap ''failed to write JSON:   '' err), w5)
            | (None, w5) \<Rightarrow> (None, w5)))"
    if h: "Ping ?cl w = (None, w1) \<and> discoverKeys ?cl config w1 = (Inr keys, w2) \<and> keys \<noteq> [] \<and>
        exportLoop ?cl (UseRDBDump config) keys [] 0 0 w2 = ((kds, exported, failed), w3)"
  proof -
    from h have loop: "exportLoop ?cl (UseRDBDump config) keys [] 0 0 w2 = ((kds, exported, failed), w3)"
      by simp
    have 1: "\<forall>snap\<in>set kds. \<exists>w0. fst (TTLCmd ?cl (Key snap) w0) = Inr (TTL snap)"
      using exportLoop_run_snapshots(2) [OF loop] by blast
    have 2: "exportKeys l config w = writeExport l config kds w3"
      using h by (simp add: exportKeys_def)
    from 1 2 show ?thesis by (simp add: writeExport_created)
  qed
  note c = importKey_paths [of c' kd useDump' wi]
  have d: "importValueByType c' kd wi =
        (case SetCmd c' (Key kd) val (TTL kd) wi of (err, wj) \<Rightarrow> (Return err, wj))"
    if "Type kd = ''string'' \<and> Value kd = VString val"
    using that by (simp add: importValueByType_string)
  have e: "importValueByType c' kd wi =
        (case rpushLoop c' (Key kd) vals wi of
           (Some err, wj) \<Rightarrow> (Return (Some err), wj)
         | (None, wj) \<Rightarrow>
             (Return None, if 0 <s TTL kd then snd (Expire c' (Key kd) (TTL kd) wj) else wj))"
    if "Type kd = ''list'' \<and> Value kd = VSlice vals"
    using that by (simp add: importValueByType_list)
  have f: "importValueByType c' kd wi =
        (case saddLoop c' (Key kd) vals wi of
           (Some err, wj) \<Rightarrow> (Return (Some err), wj)
         | (None, wj) \<Rightarrow>
             (Return None, if 0 <s TTL kd then snd (Expire c' (Key kd) (TTL kd) wj) else wj))"
    if "Type kd = ''set'' \<and> Value kd = VSlice vals"
    using that by (simp add: importValueByType_set)
  have g: "importValueByType c' kd wi =
        (case HSet c' (Key kd) hvals wi of
           (Some err, wj) \<Rightarrow> (Return (Some err), wj)
         | (None, wj) \<Rightarrow>
             (Return None, if 0 <s TTL kd then snd (Expire c' (Key kd) (TTL kd) wj) else wj))"
    if "Type kd = ''hash'' \<and> Value kd = VMap hvals"
    using that by (simp add: importValueByType_hash)
  have h: "importValueByType c' kd wi =
        (case ZAdd c' (Key kd) members wi of
           (Some err, wj) \<Rightarrow> (Return (Some err), wj)
         | (None, wj) \<Rightarrow>
             (Return None, if 0 <s TTL kd then snd (Expire c' (Key kd) (TTL kd) wj) else wj))"
    if "Type kd = ''zset'' \<and> Value kd = VSlice vals \<and> zsetMembers vals [] = Return members"
    using that by (simp add: importValueByType_zset)
  from a b c d e f g h show ?thesis by blast
qed


lemma exportLoop_sample_dump:
  "exportLoop sampleSource True [''user:1'', ''user:2'', ''user:3''] [] 0 0 w =
     (([sampleDump ''user:1'' (- 1), (sampleDump ''user:2'' 60000000000)\<lparr>Type := ''stream''\<rparr>,
        sampleDump ''user:3'' 60000000000], 3, 0), w)"
  by (simp add: exportKey_sample_dump sampleDump_def)

text \<open>
  The sample source exported under the opaque strategy, and snapshots restored into the
  target that records the time to live of each request.
\<close>

theorem persisted_ttl_is_the_ttl_read_witness:
  "exportLoop sampleSource True [''user:1'', ''user:2'', ''user:3''] [] 0 0 emptyWorld =
     (([sampleDump ''user:1'' (- 1), (sampleDump ''user:2'' 60000000000)\<lparr>Type := ''stream''\<rparr>,
        sampleDump ''user:3'' 60000000000], 3, 0), emptyWorld) \<and>
   fst (TTLCmd sampleSource ''user:1'' emptyWorld) = Inr (- 1) \<and>
   exportKeys (memLib sampleSource) defaultConfig emptyWorld =
     (None, emptyWorld\<lparr>files := [''redis-dump.json'' \<mapsto> Encoded
        [sampleDump ''user:1'' (- 1), (sampleDump ''user:2'' 60000000000)\<lparr>Type := ''stream''\<rparr>,
         sampleDump ''user:3'' 60000000000]]\<rparr>) \<and>
   importKey ttlLog (sampleDump ''user:1'' (- 1)) True [] = (Return None, [(''user:1'', 0)]) \<and>
   importKey ttlLog (sampleString ''user:1'' (- 1)) False [] = (Return None, [(''user:1'', - 1)]) \<and>
   importKey ttlLog (expiring ''list'' (VSlice [VString ''a''])) False [] =
     (Return None, [(''session'', 60000000000)]) \<and>
   importKey ttlLog (listSnapshot\<lparr>TTL := - 1\<rparr>) False [] = (Return None, [])"
proof -
  let ?kds = "[sampleDump ''user:1'' (- 1), (sampleDump ''user:2'' 60000000000)\<lparr>Type := ''stream''\<rparr>,
        sampleDump ''user:3'' 60000000000]"
  have cl: "NewClusterClient (memLib sampleSource) (sourceOptions defaultConfig) = sampleSource"
    by (simp add: memLib_def)
  have u: "UseRDBDump defaultConfig = True" and o: "OutputFile defaultConfig = ''redis-dump.json''"
    by (simp_all add: defaultConfig_def)
  have p: "Ping (NewClusterClient (memLib sampleSource) (sourceOptions defaultConfig)) emptyWorld =
             (None, emptyWorld)"
    unfolding cl by (simp add: sampleSource_def stubClient_def)
  have d: "discoverKeys (NewClusterClient (memLib sampleSource) (sourceOptions defaultConfig))
             defaultConfig emptyWorld = (Inr [''user:1'', ''user:2'', ''user:3''], emptyWorld)"
    unfolding cl by (rule discover_sample)
  have x: "exportLoop (NewClusterClient (memLib sampleSource) (sourceOptions defaultConfig))
             (UseRDBDump defaultConfig) [''user:1'', ''user:2'', ''user:3''] [] 0 0 emptyWorld =
             ((?kds, 3, 0), emptyWorld)"
    unfolding cl u by (rule exportLoop_sample_dump)
  have cr: "Create (memLib sampleSource) (OutputFile defaultConfig) emptyWorld =
              (Inr ''redis-dump.json'', emptyWorld\<lparr>files := [''redis-dump.json'' \<mapsto> Truncated]\<rparr>)"
    unfolding o by (simp add: memLib_def emptyWorld_def)
  have en: "Encode (memLib sampleSource) ''redis-dump.json'' ?kds
              (emptyWorld\<lparr>files := [''redis-dump.json'' \<mapsto> Truncated]\<rparr>) =
              (None, emptyWorld\<lparr>files := [''redis-dump.json'' \<mapsto> Encoded ?kds]\<rparr>)"
    by (simp add: memLib_def emptyWorld_def jsonKeyData_def jsonValue_def sampleDump_def)
  have xk: "exportKey sampleSource ''user:1'' True emptyWorld = (Inr (sampleDump ''user:1'' (- 1)), emptyWorld)"
    by (simp add: exportKey_sample_dump sampleDump_def)
  note base = persisted_ttl_is_the_ttl_read
    [where l = "memLib sampleSource" and config = defaultConfig and w = emptyWorld
       and ?w1.0 = emptyWorld and ?w2.0 = emptyWorld and ?w3.0 = emptyWorld
       and keys = "[''user:1'', ''user:2'', ''user:3'']" and kds = ?kds and exported = 3 and failed = 0
       and c = sampleSource and key = "''user:1''" and useDump = True and w' = emptyWorld
       and c' = ttlLog and wi = "[]" and hvals = "[]" and members = "[]"]
  note t1 = base [where kd = "sampleDump ''user:1'' (- 1)" and useDump' = True
       and val = "[]" and vals = "[]"]
  from t1 xk have r: "fst (TTLCmd sampleSource ''user:1'' emptyWorld) = Inr (TTL (sampleDump ''user:1'' (- 1)))"
    by blast
  from t1 p d x cr have "exportKeys (memLib sampleSource) defaultConfig emptyWorld =
      (case Encode (memLib sampleSource) ''redis-dump.json'' ?kds
              (emptyWorld\<lparr>files := [''redis-dump.json'' \<mapsto> Truncated]\<rparr>) of
         (Some err, w5) \<Rightarrow> (Some (Wrap ''failed to write JSON:   '' err), w5)
       | (None, w5) \<Rightarrow> (None, w5))"
    by blast
  then have e: "exportKeys (memLib sampleSource) defaultConfig emptyWorld =
      (None, emptyWorld\<lparr>files := [''redis-dump.json'' \<mapsto> Encoded ?kds]\<rparr>)"
    by (simp add: en)
  from t1 have i1: "importKey ttlLog (sampleDump ''user:1'' (- 1)) True [] = (Return None, [(''user:1'', 0)])"
    by (simp add: sampleDump_def ttlLog_def stubClient_def word_sless_alt)
  have i2: "importKey ttlLog (sampleString ''user:1'' (- 1)) False [] = (Return None, [(''user:1'', - 1)])"
    using base [where kd = "sampleString ''user:1'' (- 1)" and useDump' = False
         and val = "''value of user:1''" and vals = "[]"]
    by (simp add: sampleString_def ttlLog_def stubClient_def)
  have i3: "importKey ttlLog (expiring ''list'' (VSlice [VString ''a''])) False [] =
     (Return None, [(''session'', 60000000000)])"
    using base [where kd = "expiring ''list'' (VSlice [VString ''a''])" and useDump' = False
         and val = "[]" and vals = "[VString ''a'']"]
    by (simp add: expiring_def ttlLog_def stubClient_def word_sless_alt)
  have i4: "importKey ttlLog (listSnapshot\<lparr>TTL := - 1\<rparr>) False [] = (Return None, [])"
    using base [where kd = "listSnapshot\<lparr>TTL := - 1\<rparr>" and useDump' = False
         and val = "[]" and vals = "[VString ''job'']"]
    by (simp add: listSnapshot_def ttlLog_def stubClient_def word_sless_alt)
  from x r e i1 i2 i3 i4 show ?thesis
    unfolding cl u by (simp add: sampleDump_def)
qed







end
